theory Spec2Isabelle
  imports Complex_Main "HOL-Library.Monad_Syntax"
begin

section \<open>Part 3, Building the Model: the notebook as a program\<close>

text \<open>
  The notebook \<^verbatim>\<open>Part_3_Model_Building.ipynb\<close> is a straight-line script over the
  Spark SQL and Spark machine-learning libraries. Its code cells are embedded one by one, in the order
  of the file, as functions on the kernel's namespace. The libraries are not part of the
  repository: what they compute (SQL scalar functions, sampling, fitting, transforming,
  scoring, splitting) enters as the fields of a record \<open>spark\<close> that every cell receives,
  so each theorem holds for whatever the libraries return. A library call that raises is
  the value \<open>None\<close>, and a run stops at the first one, as "Run All" does.

  What the notebook itself decides is modelled in full: which column a \<^verbatim>\<open>withColumn\<close>
  writes, which stages a pipeline has and in which order, which estimator, parameter grid
  and fold count the cross-validator is given, which dataset each \<^verbatim>\<open>fit\<close>,
  \<^verbatim>\<open>transform\<close> and \<^verbatim>\<open>evaluate\<close> receives, which weights and seed each
  \<^verbatim>\<open>randomSplit\<close> receives, and which statements are comments.
\<close>

subsection \<open>Values, column expressions and data frames\<close>

datatype val = Null | Str string | Num int | Dbl real | Bool bool | Vec "real list"

type_synonym row = "string \<rightharpoonup> val"

record dataframe =
  columns :: "string list"
  rows :: "row list"

text \<open>
  A PySpark \<^verbatim>\<open>Column\<close> is an unevaluated expression tree: \<^verbatim>\<open>col\<close>, \<^verbatim>\<open>lit\<close>, a SQL
  function applied to columns (\<^verbatim>\<open>length\<close>, \<^verbatim>\<open>concat\<close>, \<^verbatim>\<open>==\<close>, \<^verbatim>\<open>when/otherwise\<close>) or a
  \<^verbatim>\<open>cast\<close>.
\<close>

datatype column =
    col string
  | lit val
  | Fn string "column list"
  | cast column string

definition length_c :: "column \<Rightarrow> column" where
  "length_c c = Fn ''length'' [c]"

definition eq_c :: "column \<Rightarrow> column \<Rightarrow> column" where
  "eq_c a b = Fn ''=='' [a, b]"

definition concat_c :: "column list \<Rightarrow> column" where
  "concat_c cs = Fn ''concat'' cs"

definition when_otherwise :: "column \<Rightarrow> column \<Rightarrow> column \<Rightarrow> column" where
  "when_otherwise condition value other = Fn ''when'' [condition, value, other]"

subsection \<open>The libraries\<close>

text \<open>
  Stages, estimators and evaluators are the constructor calls of the notebook with their
  keyword arguments. \<open>Pipeline\<close> and \<open>CrossValidator\<close> are estimators too.
\<close>

datatype stage =
    StringIndexer (inputCol : string) (outputCol : string) (handleInvalid : string)
  | OneHotEncoderEstimator (inputCols : "string list") (outputCols : "string list")
  | VectorAssembler (inputCols : "string list") (outputCol : string)

type_synonym param_map = "(string \<times> val) list"

record evaluator =
  labelCol :: string
  metricName :: string

datatype estimator =
    Pipeline "stage list"
  | LogisticRegression param_map
  | RandomForestClassifier param_map
  | GBTClassifier param_map
  | CrossValidator (cv_estimator : estimator) (estimatorParamMaps : "param_map list")
      (cv_evaluator : evaluator) (numFolds : nat) (parallelism : nat)

text \<open>
  The library and run-time behaviour the notebook relies on. \<open>'m\<close> is the type of fitted
  models (\<^verbatim>\<open>PipelineModel\<close>, \<^verbatim>\<open>LogisticRegressionModel\<close>, ...), all of them
  transformers.
\<close>

record 'm spark =
  sql :: "string \<Rightarrow> dataframe option"
  na_drop :: "dataframe \<Rightarrow> dataframe option"
  sample :: "real \<Rightarrow> nat \<Rightarrow> dataframe \<Rightarrow> dataframe option"
  sql_fn :: "string \<Rightarrow> val list \<Rightarrow> val"
  sql_cast :: "string \<Rightarrow> val \<Rightarrow> val"
  jvm_randomSplit :: "real list \<Rightarrow> nat \<Rightarrow> dataframe \<Rightarrow> dataframe list option"
  fit :: "estimator \<Rightarrow> dataframe \<Rightarrow> 'm option"
  transform :: "'m \<Rightarrow> dataframe \<Rightarrow> dataframe option"
  evaluate :: "evaluator \<Rightarrow> dataframe \<Rightarrow> real option"

subsection \<open>Data frame operations\<close>

text \<open>
  A column expression is analysed against the schema when the data frame is built: a
  \<^verbatim>\<open>col\<close> naming no column of the frame raises (\<open>None\<close>). Names are compared as written.
\<close>

fun resolved :: "string list \<Rightarrow> column \<Rightarrow> bool" where
  "resolved cs (col n) = (n \<in> set cs)"
| "resolved cs (lit v) = True"
| "resolved cs (Fn f args) = list_all (resolved cs) args"
| "resolved cs (cast c t) = resolved cs c"

fun eval :: "'m spark \<Rightarrow> row \<Rightarrow> column \<Rightarrow> val" where
  "eval sp r (col n) = (case r n of Some v \<Rightarrow> v | None \<Rightarrow> Null)"
| "eval sp r (lit v) = v"
| "eval sp r (Fn f args) = sql_fn sp f (map (eval sp r) args)"
| "eval sp r (cast c t) = sql_cast sp t (eval sp r c)"

text \<open>
  \<^verbatim>\<open>df.withColumn(name, c)\<close>: a column of that name is replaced where it stands, a new
  name is appended to the schema.
\<close>

definition withColumn :: "'m spark \<Rightarrow> string \<Rightarrow> column \<Rightarrow> dataframe \<Rightarrow> dataframe option" where
  "withColumn sp name c df =
     (if resolved (columns df) c
      then Some \<lparr>columns = (if name \<in> set (columns df) then columns df else columns df @ [name]),
                 rows = map (\<lambda>r. r(name \<mapsto> eval sp r c)) (rows df)\<rparr>
      else None)"

text \<open>\<^verbatim>\<open>df.select(names)\<close> keeps the named columns, in the order asked for.\<close>

definition select :: "string list \<Rightarrow> dataframe \<Rightarrow> dataframe option" where
  "select names df =
     (if list_all (\<lambda>n. n \<in> set (columns df)) names
      then Some \<lparr>columns = names, rows = map (\<lambda>r. r |` set names) (rows df)\<rparr>
      else None)"

subsection \<open>Basic feature engineering\<close>

text \<open>
  \<^verbatim>\<open>
  flight_df = flight_df\
      .withColumn(
          'CRS_DEP_HOUR',
          when(
              length(col("CRS_DEP_TIME")) == 4,col("CRS_DEP_TIME")
          )\
          .otherwise(concat(lit("0"),col("CRS_DEP_TIME")))
      )

  flight_df = flight_df.withColumn('CRS_DEP_HOUR',col('CRS_DEP_TIME').cast('double'))
  \<close>
\<close>

definition padded_time :: column where
  "padded_time =
     when_otherwise (eq_c (length_c (col ''CRS_DEP_TIME'')) (lit (Num 4)))
       (col ''CRS_DEP_TIME'')
       (concat_c [lit (Str ''0''), col ''CRS_DEP_TIME''])"

definition feature_engineering :: "'m spark \<Rightarrow> dataframe \<Rightarrow> dataframe option" where
  "feature_engineering sp flight_df = do {
     flight_df \<leftarrow> withColumn sp ''CRS_DEP_HOUR'' padded_time flight_df;
     withColumn sp ''CRS_DEP_HOUR'' (cast (col ''CRS_DEP_TIME'') ''double'') flight_df
   }"

text \<open>The columns of \<open>df'\<close> that \<open>df\<close> does not have.\<close>

definition new_columns :: "dataframe \<Rightarrow> dataframe \<Rightarrow> string list" where
  "new_columns df df' = filter (\<lambda>n. n \<notin> set (columns df)) (columns df')"

subsection \<open>The kernel's namespace and the record of library calls\<close>

text \<open>
  The calls into the machine-learning library and the object store that a run makes, in
  order, each with its arguments and what it returned. \<open>Call_randomSplit\<close> keeps the
  \<^verbatim>\<open>seed\<close> argument as written (\<open>None\<close> when omitted) and the seed that reached the
  JVM.
\<close>

datatype 'm call =
    Call_Pipeline "stage list"
  | Call_fit estimator dataframe 'm
  | Call_transform 'm dataframe dataframe
  | Call_randomSplit "real list" "nat option" nat dataframe "dataframe list"
  | Call_evaluate evaluator dataframe real
  | Call_save string 'm

text \<open>
  The global names of the notebook (\<open>None\<close>: not bound yet; reading such a name raises
  \<^verbatim>\<open>NameError\<close>), the numbers the cells display (\<open>Out\<close>), the calls made so far, the
  number of seeds drawn from Python's \<^verbatim>\<open>random\<close> module, and the external object
  store (path to saved model).
\<close>

record 'm namespace =
  flight_df_original :: "dataframe option"
  flight_df :: "dataframe option"
  numeric_cols :: "string list option"
  op_carrier_indexer :: "stage option"
  origin_indexer :: "stage option"
  dest_indexer :: "stage option"
  indexer_encoder :: "stage option"
  input_cols :: "string list option"
  assembler :: "stage option"
  pipeline :: "estimator option"
  pipelineModel :: "'m option"
  model_df :: "dataframe option"
  selectedCols :: "string list option"
  train :: "dataframe option"
  test :: "dataframe option"
  lr :: "estimator option"
  lrModel :: "'m option"
  predictionslr :: "dataframe option"
  evaluator :: "evaluator option"
  rfclassifier :: "estimator option"
  rfmodel :: "'m option"
  predictionsrf :: "dataframe option"
  gbt :: "estimator option"
  gbtModel :: "'m option"
  predictionsgbt :: "dataframe option"
  paramGrid :: "param_map list option"
  cv :: "estimator option"
  cvModel :: "'m option"
  predictions :: "dataframe option"
  Out :: "real list"
  calls :: "'m call list"
  draws :: nat
  store :: "string \<rightharpoonup> 'm"

definition empty_namespace :: "(string \<rightharpoonup> 'm) \<Rightarrow> 'm namespace" where
  "empty_namespace st =
     \<lparr>flight_df_original = None, flight_df = None, numeric_cols = None,
      op_carrier_indexer = None, origin_indexer = None, dest_indexer = None,
      indexer_encoder = None, input_cols = None, assembler = None, pipeline = None,
      pipelineModel = None, model_df = None, selectedCols = None, train = None, test = None,
      lr = None, lrModel = None, predictionslr = None, evaluator = None,
      rfclassifier = None, rfmodel = None, predictionsrf = None,
      gbt = None, gbtModel = None, predictionsgbt = None,
      paramGrid = None, cv = None, cvModel = None, predictions = None,
      Out = [], calls = [], draws = 0, store = st\<rparr>"

definition logged :: "'m call \<Rightarrow> 'm namespace \<Rightarrow> 'm namespace" where
  "logged c s = s\<lparr>calls := calls s @ [c]\<rparr>"

subsection \<open>Library calls as the notebook makes them\<close>

definition Pipeline_call :: "stage list \<Rightarrow> 'm namespace \<Rightarrow> estimator \<times> 'm namespace" where
  "Pipeline_call stages s = (Pipeline stages, logged (Call_Pipeline stages) s)"

definition fit_call ::
  "'m spark \<Rightarrow> estimator \<Rightarrow> dataframe \<Rightarrow> 'm namespace \<Rightarrow> ('m \<times> 'm namespace) option" where
  "fit_call sp est df s = do {
     m \<leftarrow> fit sp est df;
     Some (m, logged (Call_fit est df m) s)
   }"

definition transform_call ::
  "'m spark \<Rightarrow> 'm \<Rightarrow> dataframe \<Rightarrow> 'm namespace \<Rightarrow> (dataframe \<times> 'm namespace) option" where
  "transform_call sp m df s = do {
     out \<leftarrow> transform sp m df;
     Some (out, logged (Call_transform m df out) s)
   }"

definition evaluate_call ::
  "'m spark \<Rightarrow> evaluator \<Rightarrow> dataframe \<Rightarrow> 'm namespace \<Rightarrow> (real \<times> 'm namespace) option" where
  "evaluate_call sp ev df s = do {
     score \<leftarrow> evaluate sp ev df;
     Some (score, logged (Call_evaluate ev df score) s)
   }"

text \<open>
  \<^verbatim>\<open>df.randomSplit(weights, seed=None)\<close>: PySpark passes the given seed to the JVM, and
  draws one from Python's \<^verbatim>\<open>random\<close> module when the argument is omitted. \<open>rand\<close> is
  that module's output, the \<open>i\<close>-th draw of the run being \<open>rand i\<close>.
  \<^verbatim>\<open>(train, test) = ...\<close> unpacks exactly two frames and raises otherwise.
\<close>

definition randomSplit_call ::
  "'m spark \<Rightarrow> (nat \<Rightarrow> nat) \<Rightarrow> real list \<Rightarrow> nat option \<Rightarrow> dataframe \<Rightarrow> 'm namespace
     \<Rightarrow> (dataframe \<times> dataframe \<times> 'm namespace) option" where
  "randomSplit_call sp rand weights seed df s = do {
     let (jvm_seed, s) =
       (case seed of Some n \<Rightarrow> (n, s) | None \<Rightarrow> (rand (draws s), s\<lparr>draws := draws s + 1\<rparr>));
     parts \<leftarrow> jvm_randomSplit sp weights jvm_seed df;
     let s = logged (Call_randomSplit weights seed jvm_seed df parts) s;
     (case parts of [a, b] \<Rightarrow> Some (a, b, s) | _ \<Rightarrow> None)
   }"

text \<open>
  \<^verbatim>\<open>model.write().overwrite().save(path)\<close> replaces what the object store holds at
  \<open>path\<close>. The notebook has the statement only as a comment.
\<close>

definition write_overwrite_save :: "'m \<Rightarrow> string \<Rightarrow> 'm namespace \<Rightarrow> 'm namespace" where
  "write_overwrite_save m path s = logged (Call_save path m) (s\<lparr>store := (store s)(path \<mapsto> m)\<rparr>)"

text \<open>
  \<^verbatim>\<open>ParamGridBuilder\<close> keeps a dict from parameter to candidate values; \<^verbatim>\<open>addGrid\<close> sets
  an entry, \<^verbatim>\<open>build\<close> returns one parameter map per element of the product of the value
  lists, the first parameter varying slowest. A parameter is identified by its name.
\<close>

definition ParamGridBuilder :: "(string \<times> val list) list" where
  "ParamGridBuilder = []"

definition addGrid ::
  "string \<Rightarrow> val list \<Rightarrow> (string \<times> val list) list \<Rightarrow> (string \<times> val list) list" where
  "addGrid p vs g =
     (if p \<in> set (map fst g) then map (\<lambda>(q, ws). if q = p then (q, vs) else (q, ws)) g
      else g @ [(p, vs)])"

fun build :: "(string \<times> val list) list \<Rightarrow> param_map list" where
  "build [] = [[]]"
| "build ((p, vs) # g) = concat (map (\<lambda>v. map (\<lambda>m. (p, v) # m) (build g)) vs)"

subsection \<open>The code cells\<close>

text \<open>
  Cells that only display something (the Spark UI link, \<^verbatim>\<open>printSchema\<close>,
  \<^verbatim>\<open>explainParams\<close>, the best parameters, the ROC plot) bind no name that a later cell
  reads and call neither the estimators nor the object store; they are left out, as is
  the creation of the session, whose handle is the record \<open>sp\<close>.

  \<^verbatim>\<open>
  flight_df_original = spark.sql("select * from smaller_flight_table")
  flight_df = flight_df_original.na.drop().sample(1/600,seed=111)
  flight_df.persist()
  \<close>
  (\<^verbatim>\<open>persist\<close> marks the frame for caching and returns it.)
\<close>

definition cell_import_data :: "'m spark \<Rightarrow> 'm namespace \<Rightarrow> 'm namespace option" where
  "cell_import_data sp s = do {
     flight_df_original \<leftarrow> sql sp ''select * from smaller_flight_table'';
     dropped \<leftarrow> na_drop sp flight_df_original;
     flight_df \<leftarrow> sample sp (1 / 600) 111 dropped;
     Some (s\<lparr>flight_df_original := Some flight_df_original, flight_df := Some flight_df\<rparr>)
   }"

definition cell_feature_engineering :: "'m spark \<Rightarrow> 'm namespace \<Rightarrow> 'm namespace option" where
  "cell_feature_engineering sp s = do {
     flight_df \<leftarrow> flight_df s;
     flight_df \<leftarrow> feature_engineering sp flight_df;
     Some (s\<lparr>flight_df := Some flight_df\<rparr>)
   }"

text \<open>
  \<^verbatim>\<open>
  numeric_cols = ["CRS_ELAPSED_TIME","DISTANCE","WEEK","CRS_DEP_HOUR"]
  op_carrier_indexer = StringIndexer(inputCol ='OP_CARRIER', outputCol = 'OP_CARRIER_INDEXED',handleInvalid="keep")
  origin_indexer = StringIndexer(inputCol ='ORIGIN', outputCol = 'ORIGIN_INDEXED',handleInvalid="keep")
  dest_indexer = StringIndexer(inputCol ='DEST', outputCol = 'DEST_INDEXED',handleInvalid="keep")
  indexer_encoder = OneHotEncoderEstimator(
      inputCols = ['OP_CARRIER_INDEXED','ORIGIN_INDEXED','DEST_INDEXED'],
      outputCols= ['OP_CARRIER_ENCODED','ORIGIN_ENCODED','DEST_ENCODED'])
  input_cols=['OP_CARRIER_ENCODED','ORIGIN_ENCODED','DEST_ENCODED'] + numeric_cols
  assembler = VectorAssembler(inputCols = input_cols, outputCol = 'features')
  pipeline = Pipeline(stages=[op_carrier_indexer, origin_indexer, dest_indexer, indexer_encoder, assembler])
  \<close>
\<close>

definition cell_pipeline :: "'m namespace \<Rightarrow> 'm namespace option" where
  "cell_pipeline s = do {
     let numeric_cols = [''CRS_ELAPSED_TIME'', ''DISTANCE'', ''WEEK'', ''CRS_DEP_HOUR''];
     let op_carrier_indexer = StringIndexer ''OP_CARRIER'' ''OP_CARRIER_INDEXED'' ''keep'';
     let origin_indexer = StringIndexer ''ORIGIN'' ''ORIGIN_INDEXED'' ''keep'';
     let dest_indexer = StringIndexer ''DEST'' ''DEST_INDEXED'' ''keep'';
     let indexer_encoder = OneHotEncoderEstimator
           [''OP_CARRIER_INDEXED'', ''ORIGIN_INDEXED'', ''DEST_INDEXED'']
           [''OP_CARRIER_ENCODED'', ''ORIGIN_ENCODED'', ''DEST_ENCODED''];
     let input_cols = [''OP_CARRIER_ENCODED'', ''ORIGIN_ENCODED'', ''DEST_ENCODED''] @ numeric_cols;
     let assembler = VectorAssembler input_cols ''features'';
     let (pipeline, s) = Pipeline_call
           [op_carrier_indexer, origin_indexer, dest_indexer, indexer_encoder, assembler] s;
     Some (s\<lparr>numeric_cols := Some numeric_cols, op_carrier_indexer := Some op_carrier_indexer,
              origin_indexer := Some origin_indexer, dest_indexer := Some dest_indexer,
              indexer_encoder := Some indexer_encoder, input_cols := Some input_cols,
              assembler := Some assembler, pipeline := Some pipeline\<rparr>)
   }"

text \<open>
  The tail that the three pipeline cells share (\<^verbatim>\<open>printSchema\<close> prints):
  \<^verbatim>\<open>
  pipelineModel = pipeline.fit(flight_df)
  model_df = pipelineModel.transform(flight_df)
  selectedCols = ['CANCELLED', 'features']
  model_df = model_df.select(selectedCols)
  model_df.printSchema()
  (train, test) = model_df.randomSplit([0.7, 0.3])
  \<close>
\<close>

definition fit_transform_split ::
  "'m spark \<Rightarrow> (nat \<Rightarrow> nat) \<Rightarrow> 'm namespace \<Rightarrow> 'm namespace option" where
  "fit_transform_split sp rand s = do {
     pipeline \<leftarrow> pipeline s;
     flight_df \<leftarrow> flight_df s;
     (pipelineModel, s) \<leftarrow> fit_call sp pipeline flight_df s;
     (model_df, s) \<leftarrow> transform_call sp pipelineModel flight_df s;
     let selectedCols = [''CANCELLED'', ''features''];
     model_df \<leftarrow> select selectedCols model_df;
     (train, test, s) \<leftarrow> randomSplit_call sp rand [0.7, 0.3] None model_df s;
     Some (s\<lparr>pipelineModel := Some pipelineModel, model_df := Some model_df,
              selectedCols := Some selectedCols, train := Some train, test := Some test\<rparr>)
   }"

definition cell_train_test :: "'m spark \<Rightarrow> (nat \<Rightarrow> nat) \<Rightarrow> 'm namespace \<Rightarrow> 'm namespace option" where
  "cell_train_test sp rand s = fit_transform_split sp rand s"

text \<open>
  \<^verbatim>\<open>
  lr = LogisticRegression(featuresCol = 'features', labelCol = 'CANCELLED', maxIter=10)
  lrModel = lr.fit(train)
  \<close>
\<close>

definition cell_lr :: "'m spark \<Rightarrow> 'm namespace \<Rightarrow> 'm namespace option" where
  "cell_lr sp s = do {
     let lr = LogisticRegression
           [(''featuresCol'', Str ''features''), (''labelCol'', Str ''CANCELLED''),
            (''maxIter'', Num 10)];
     train \<leftarrow> train s;
     (lrModel, s) \<leftarrow> fit_call sp lr train s;
     Some (s\<lparr>lr := Some lr, lrModel := Some lrModel\<rparr>)
   }"

text \<open>
  \<^verbatim>\<open>
  predictionslr = lrModel.transform(test)
  evaluator = BinaryClassificationEvaluator(labelCol="CANCELLED",metricName="areaUnderROC")
  evaluator.evaluate(predictionslr)
  \<close>
\<close>

definition cell_lr_evaluate :: "'m spark \<Rightarrow> 'm namespace \<Rightarrow> 'm namespace option" where
  "cell_lr_evaluate sp s = do {
     lrModel \<leftarrow> lrModel s;
     test \<leftarrow> test s;
     (predictionslr, s) \<leftarrow> transform_call sp lrModel test s;
     let evaluator = \<lparr>labelCol = ''CANCELLED'', metricName = ''areaUnderROC''\<rparr>;
     (score, s) \<leftarrow> evaluate_call sp evaluator predictionslr s;
     Some (s\<lparr>predictionslr := Some predictionslr, evaluator := Some evaluator,
              Out := Out s @ [score]\<rparr>)
   }"

text \<open>
  The whole cell is one comment:
  \<^verbatim>\<open>
  #pipelineModel.write().overwrite().save("s3a://ml-field/demo/flight-analysis/data/models/pipeline_model")
  \<close>
\<close>

definition cell_save :: "'m namespace \<Rightarrow> 'm namespace option" where
  "cell_save s = Some s"

text \<open>
  \<^verbatim>\<open>
  input_cols = ['OP_CARRIER_INDEXED','ORIGIN_INDEXED','DEST_INDEXED'] + numeric_cols
  assembler = VectorAssembler(inputCols = input_cols, outputCol = 'features')
  pipeline = Pipeline(stages=[op_carrier_indexer, origin_indexer, dest_indexer, assembler])
  \<close>
  and the shared tail.
\<close>

definition cell_rebuild :: "'m spark \<Rightarrow> (nat \<Rightarrow> nat) \<Rightarrow> 'm namespace \<Rightarrow> 'm namespace option" where
  "cell_rebuild sp rand s = do {
     numeric_cols \<leftarrow> numeric_cols s;
     let input_cols = [''OP_CARRIER_INDEXED'', ''ORIGIN_INDEXED'', ''DEST_INDEXED''] @ numeric_cols;
     let assembler = VectorAssembler input_cols ''features'';
     op_carrier_indexer \<leftarrow> op_carrier_indexer s;
     origin_indexer \<leftarrow> origin_indexer s;
     dest_indexer \<leftarrow> dest_indexer s;
     let (pipeline, s) = Pipeline_call
           [op_carrier_indexer, origin_indexer, dest_indexer, assembler] s;
     fit_transform_split sp rand
       (s\<lparr>input_cols := Some input_cols, assembler := Some assembler, pipeline := Some pipeline\<rparr>)
   }"

text \<open>
  \<^verbatim>\<open>
  rfclassifier = RandomForestClassifier(labelCol = 'CANCELLED', featuresCol = 'features', maxBins=390)
  rfmodel = rfclassifier.fit(train)
  \<close>
\<close>

definition cell_rf :: "'m spark \<Rightarrow> 'm namespace \<Rightarrow> 'm namespace option" where
  "cell_rf sp s = do {
     let rfclassifier = RandomForestClassifier
           [(''labelCol'', Str ''CANCELLED''), (''featuresCol'', Str ''features''),
            (''maxBins'', Num 390)];
     train \<leftarrow> train s;
     (rfmodel, s) \<leftarrow> fit_call sp rfclassifier train s;
     Some (s\<lparr>rfclassifier := Some rfclassifier, rfmodel := Some rfmodel\<rparr>)
   }"

text \<open>
  \<^verbatim>\<open>
  predictionsrf = rfmodel.transform(test)
  evaluator = BinaryClassificationEvaluator(labelCol="CANCELLED",metricName="areaUnderROC")
  evaluator.evaluate(predictionsrf)
  \<close>
\<close>

definition cell_rf_evaluate :: "'m spark \<Rightarrow> 'm namespace \<Rightarrow> 'm namespace option" where
  "cell_rf_evaluate sp s = do {
     rfmodel \<leftarrow> rfmodel s;
     test \<leftarrow> test s;
     (predictionsrf, s) \<leftarrow> transform_call sp rfmodel test s;
     let evaluator = \<lparr>labelCol = ''CANCELLED'', metricName = ''areaUnderROC''\<rparr>;
     (score, s) \<leftarrow> evaluate_call sp evaluator predictionsrf s;
     Some (s\<lparr>predictionsrf := Some predictionsrf, evaluator := Some evaluator,
              Out := Out s @ [score]\<rparr>)
   }"

text \<open>
  \<^verbatim>\<open>
  gbt = GBTClassifier(maxIter=10,featuresCol = 'features', labelCol = 'CANCELLED', maxBins=390)
  gbtModel = gbt.fit(train)
  \<close>
\<close>

definition cell_gbt :: "'m spark \<Rightarrow> 'm namespace \<Rightarrow> 'm namespace option" where
  "cell_gbt sp s = do {
     let gbt = GBTClassifier
           [(''maxIter'', Num 10), (''featuresCol'', Str ''features''),
            (''labelCol'', Str ''CANCELLED''), (''maxBins'', Num 390)];
     train \<leftarrow> train s;
     (gbtModel, s) \<leftarrow> fit_call sp gbt train s;
     Some (s\<lparr>gbt := Some gbt, gbtModel := Some gbtModel\<rparr>)
   }"

text \<open>
  \<^verbatim>\<open>
  predictionsgbt = gbtModel.transform(test)
  evaluator = BinaryClassificationEvaluator(labelCol="CANCELLED",metricName="areaUnderROC")
  evaluator.evaluate(predictionsgbt)
  \<close>
\<close>

definition cell_gbt_evaluate :: "'m spark \<Rightarrow> 'm namespace \<Rightarrow> 'm namespace option" where
  "cell_gbt_evaluate sp s = do {
     gbtModel \<leftarrow> gbtModel s;
     test \<leftarrow> test s;
     (predictionsgbt, s) \<leftarrow> transform_call sp gbtModel test s;
     let evaluator = \<lparr>labelCol = ''CANCELLED'', metricName = ''areaUnderROC''\<rparr>;
     (score, s) \<leftarrow> evaluate_call sp evaluator predictionsgbt s;
     Some (s\<lparr>predictionsgbt := Some predictionsgbt, evaluator := Some evaluator,
              Out := Out s @ [score]\<rparr>)
   }"

text \<open>
  \<^verbatim>\<open>
  input_cols=['OP_CARRIER_ENCODED','ORIGIN_ENCODED','DEST_ENCODED'] + numeric_cols
  assembler = VectorAssembler(inputCols = input_cols, outputCol = 'features')
  pipeline = Pipeline(stages=[op_carrier_indexer, origin_indexer, dest_indexer, indexer_encoder, assembler])
  \<close>
  and the shared tail.
\<close>

definition cell_rebuild_again ::
  "'m spark \<Rightarrow> (nat \<Rightarrow> nat) \<Rightarrow> 'm namespace \<Rightarrow> 'm namespace option" where
  "cell_rebuild_again sp rand s = do {
     numeric_cols \<leftarrow> numeric_cols s;
     let input_cols = [''OP_CARRIER_ENCODED'', ''ORIGIN_ENCODED'', ''DEST_ENCODED''] @ numeric_cols;
     let assembler = VectorAssembler input_cols ''features'';
     op_carrier_indexer \<leftarrow> op_carrier_indexer s;
     origin_indexer \<leftarrow> origin_indexer s;
     dest_indexer \<leftarrow> dest_indexer s;
     indexer_encoder \<leftarrow> indexer_encoder s;
     let (pipeline, s) = Pipeline_call
           [op_carrier_indexer, origin_indexer, dest_indexer, indexer_encoder, assembler] s;
     fit_transform_split sp rand
       (s\<lparr>input_cols := Some input_cols, assembler := Some assembler, pipeline := Some pipeline\<rparr>)
   }"

text \<open>
  \<^verbatim>\<open>
  paramGrid = (ParamGridBuilder()
               .addGrid(lrModel.maxIter, [5, 10,100])
               .addGrid(lrModel.regParam, [0.0, 0.01, 0.1])
               .addGrid(lrModel.elasticNetParam, [0.0, 0.5, 1.0])
               .build())
  cv = CrossValidator(estimator=lr, estimatorParamMaps=paramGrid, evaluator=evaluator, numFolds=5, parallelism=3)
  cvModel = cv.fit(train)
  \<close>
  The parameters are attributes of \<open>lrModel\<close>, which must be bound.
\<close>

definition cell_cross_validate :: "'m spark \<Rightarrow> 'm namespace \<Rightarrow> 'm namespace option" where
  "cell_cross_validate sp s = do {
     _ \<leftarrow> lrModel s;
     let paramGrid = build
           (addGrid ''elasticNetParam'' [Dbl 0, Dbl (5 / 10), Dbl 1]
           (addGrid ''regParam'' [Dbl 0, Dbl (1 / 100), Dbl (1 / 10)]
           (addGrid ''maxIter'' [Num 5, Num 10, Num 100]
            ParamGridBuilder)));
     lr \<leftarrow> lr s;
     evaluator \<leftarrow> evaluator s;
     let cv = CrossValidator lr paramGrid evaluator 5 3;
     train \<leftarrow> train s;
     (cvModel, s) \<leftarrow> fit_call sp cv train s;
     Some (s\<lparr>paramGrid := Some paramGrid, cv := Some cv, cvModel := Some cvModel\<rparr>)
   }"

text \<open>
  \<^verbatim>\<open>
  predictions = cvModel.transform(test)
  evaluator.evaluate(predictions)
  \<close>
\<close>

definition cell_cv_evaluate :: "'m spark \<Rightarrow> 'm namespace \<Rightarrow> 'm namespace option" where
  "cell_cv_evaluate sp s = do {
     cvModel \<leftarrow> cvModel s;
     test \<leftarrow> test s;
     (predictions, s) \<leftarrow> transform_call sp cvModel test s;
     evaluator \<leftarrow> evaluator s;
     (score, s) \<leftarrow> evaluate_call sp evaluator predictions s;
     Some (s\<lparr>predictions := Some predictions, Out := Out s @ [score]\<rparr>)
   }"

subsection \<open>A run of the notebook\<close>

text \<open>
  The cells in the order of the file, from an empty namespace. The inputs of a run are the
  libraries and the session's tables (\<open>sp\<close>), the output of Python's random module
  (\<open>rand\<close>) and the object store as the run finds it (\<open>st\<close>).
\<close>

definition run :: "'m spark \<Rightarrow> (nat \<Rightarrow> nat) \<Rightarrow> (string \<rightharpoonup> 'm) \<Rightarrow> 'm namespace option" where
  "run sp rand st = do {
     s \<leftarrow> cell_import_data sp (empty_namespace st);
     s \<leftarrow> cell_feature_engineering sp s;
     s \<leftarrow> cell_pipeline s;
     s \<leftarrow> cell_train_test sp rand s;
     s \<leftarrow> cell_lr sp s;
     s \<leftarrow> cell_lr_evaluate sp s;
     s \<leftarrow> cell_save s;
     s \<leftarrow> cell_rebuild sp rand s;
     s \<leftarrow> cell_rf sp s;
     s \<leftarrow> cell_rf_evaluate sp s;
     s \<leftarrow> cell_gbt sp s;
     s \<leftarrow> cell_gbt_evaluate sp s;
     s \<leftarrow> cell_rebuild_again sp rand s;
     s \<leftarrow> cell_cross_validate sp s;
     cell_cv_evaluate sp s
   }"

text \<open>
  The same cells as a list, and the run of a list of cells; a run that an exception stops
  after \<open>n\<close> cells leaves the namespace of \<open>run_cells (take n (cells sp rand))\<close>.
\<close>

definition cells ::
  "'m spark \<Rightarrow> (nat \<Rightarrow> nat) \<Rightarrow> ('m namespace \<Rightarrow> 'm namespace option) list" where
  "cells sp rand =
     [cell_import_data sp, cell_feature_engineering sp, cell_pipeline, cell_train_test sp rand,
      cell_lr sp, cell_lr_evaluate sp, cell_save, cell_rebuild sp rand, cell_rf sp,
      cell_rf_evaluate sp, cell_gbt sp, cell_gbt_evaluate sp, cell_rebuild_again sp rand,
      cell_cross_validate sp, cell_cv_evaluate sp]"

fun run_cells ::
  "('m namespace \<Rightarrow> 'm namespace option) list \<Rightarrow> 'm namespace \<Rightarrow> 'm namespace option" where
  "run_cells [] s = Some s"
| "run_cells (c # cs) s = c s \<bind> run_cells cs"

subsection \<open>Reading the record of calls\<close>

text \<open>The stage lists of the \<^verbatim>\<open>Pipeline(...)\<close> calls, in order.\<close>

fun built_pipelines :: "'m call list \<Rightarrow> stage list list" where
  "built_pipelines [] = []"
| "built_pipelines (Call_Pipeline stages # cs) = stages # built_pipelines cs"
| "built_pipelines (_ # cs) = built_pipelines cs"

text \<open>
  The \<^verbatim>\<open>randomSplit\<close> calls, in order: weights, seed argument, seed passed on, the frame
  that was split and the parts returned.
\<close>

fun splits ::
  "'m call list \<Rightarrow> (real list \<times> nat option \<times> nat \<times> dataframe \<times> dataframe list) list" where
  "splits [] = []"
| "splits (Call_randomSplit w seed jvm_seed df parts # cs) =
     (w, seed, jvm_seed, df, parts) # splits cs"
| "splits (_ # cs) = splits cs"

definition split_weights :: "'m call list \<Rightarrow> real list list" where
  "split_weights cs = map (\<lambda>(w, seed, jvm_seed, df, parts). w) (splits cs)"

definition split_seeds :: "'m call list \<Rightarrow> (nat option \<times> nat) list" where
  "split_seeds cs = map (\<lambda>(w, seed, jvm_seed, df, parts). (seed, jvm_seed)) (splits cs)"

definition split_frames :: "'m call list \<Rightarrow> dataframe list" where
  "split_frames cs = map (\<lambda>(w, seed, jvm_seed, df, parts). df) (splits cs)"

definition split_parts :: "'m call list \<Rightarrow> dataframe list list" where
  "split_parts cs = map (\<lambda>(w, seed, jvm_seed, df, parts). parts) (splits cs)"

text \<open>The paths written to the object store.\<close>

fun saves :: "'m call list \<Rightarrow> string list" where
  "saves [] = []"
| "saves (Call_save path m # cs) = path # saves cs"
| "saves (_ # cs) = saves cs"

text \<open>
  A model is fitted, asked for predictions and the predictions are scored: the estimator,
  the frame it was fitted on, the frame it predicted, the evaluator and the score of every
  such run of three calls.
\<close>

fun experiments ::
  "'m call list \<Rightarrow> (estimator \<times> dataframe \<times> dataframe \<times> evaluator \<times> real) list" where
  "experiments [] = []"
| "experiments (c # cs) =
     (case c of
        Call_fit e tr m \<Rightarrow>
          (case cs of
             Call_transform m' te p # Call_evaluate ev p' x # _ \<Rightarrow>
               if m' = m \<and> p' = p then [(e, tr, te, ev, x)] else []
           | _ \<Rightarrow> [])
      | _ \<Rightarrow> [])
     @ experiments cs"

text \<open>
  Every \<^verbatim>\<open>Pipeline(...)\<close> call is followed at once by the fit of that pipeline, the
  transform by the fitted model and the split of the selected columns of the transformed
  frame.
\<close>

fun builds_followed_by_split :: "'m call list \<Rightarrow> bool" where
  "builds_followed_by_split [] = True"
| "builds_followed_by_split (c # cs) =
     ((case c of
         Call_Pipeline stages \<Rightarrow>
           (case cs of
              Call_fit e df m # Call_transform m' df' out # Call_randomSplit w seed j d parts # _ \<Rightarrow>
                e = Pipeline stages \<and> m' = m \<and> df' = df
                \<and> select [''CANCELLED'', ''features''] out = Some d
            | _ \<Rightarrow> False)
       | _ \<Rightarrow> True)
      \<and> builds_followed_by_split cs)"

subsection \<open>The properties the description states, as predicates\<close>

definition is_indexer_of :: "string \<Rightarrow> stage \<Rightarrow> bool" where
  "is_indexer_of c st = (case st of StringIndexer i out h \<Rightarrow> i = c | _ \<Rightarrow> False)"

text \<open>
  The three string indexers (for OP_CARRIER, ORIGIN, DEST) come first, the one-hot encoder
  (when present) comes after all indexers, and the vector assembler producing the
  \<open>features\<close> column comes last.
\<close>

definition stages_in_order :: "stage list \<Rightarrow> bool" where
  "stages_in_order stages =
     (case stages of
        a # b # c # rest \<Rightarrow>
          is_indexer_of ''OP_CARRIER'' a \<and> is_indexer_of ''ORIGIN'' b \<and> is_indexer_of ''DEST'' c
          \<and> (case rest of
                [VectorAssembler ins out] \<Rightarrow> out = ''features''
              | [OneHotEncoderEstimator ins outs, VectorAssembler ins' out] \<Rightarrow> out = ''features''
              | _ \<Rightarrow> False)
      | _ \<Rightarrow> False)"

text \<open>
  The estimator handed to the cross-validator is the classifier whose displayed score is
  highest among the three classifiers fitted earlier (the scores are displayed in the
  order logistic regression, random forest, gradient-boosted trees).
\<close>

definition grid_search_on_best :: "'m namespace \<Rightarrow> bool" where
  "grid_search_on_best s =
     (case (cv s, Out s) of
        (Some (CrossValidator e g ev k p), a # b # c # _) \<Rightarrow>
          (lr s = Some e \<and> b \<le> a \<and> c \<le> a)
          \<or> (rfclassifier s = Some e \<and> a \<le> b \<and> c \<le> b)
          \<or> (gbt s = Some e \<and> a \<le> c \<and> b \<le> c)
      | _ \<Rightarrow> False)"

subsection \<open>The objects the notebook constructs\<close>

abbreviation numeric :: "string list" where
  "numeric \<equiv> [''CRS_ELAPSED_TIME'', ''DISTANCE'', ''WEEK'', ''CRS_DEP_HOUR'']"

abbreviation indexers :: "stage list" where
  "indexers \<equiv>
     [StringIndexer ''OP_CARRIER'' ''OP_CARRIER_INDEXED'' ''keep'',
      StringIndexer ''ORIGIN'' ''ORIGIN_INDEXED'' ''keep'',
      StringIndexer ''DEST'' ''DEST_INDEXED'' ''keep'']"

abbreviation encoder :: stage where
  "encoder \<equiv> OneHotEncoderEstimator
     [''OP_CARRIER_INDEXED'', ''ORIGIN_INDEXED'', ''DEST_INDEXED'']
     [''OP_CARRIER_ENCODED'', ''ORIGIN_ENCODED'', ''DEST_ENCODED'']"

abbreviation encoded_stages :: "stage list" where
  "encoded_stages \<equiv> indexers @
     [encoder,
      VectorAssembler ([''OP_CARRIER_ENCODED'', ''ORIGIN_ENCODED'', ''DEST_ENCODED''] @ numeric)
        ''features'']"

abbreviation indexed_stages :: "stage list" where
  "indexed_stages \<equiv> indexers @
     [VectorAssembler ([''OP_CARRIER_INDEXED'', ''ORIGIN_INDEXED'', ''DEST_INDEXED''] @ numeric)
        ''features'']"

abbreviation lr_estimator :: estimator where
  "lr_estimator \<equiv> LogisticRegression
     [(''featuresCol'', Str ''features''), (''labelCol'', Str ''CANCELLED''), (''maxIter'', Num 10)]"

abbreviation rf_estimator :: estimator where
  "rf_estimator \<equiv> RandomForestClassifier
     [(''labelCol'', Str ''CANCELLED''), (''featuresCol'', Str ''features''), (''maxBins'', Num 390)]"

abbreviation gbt_estimator :: estimator where
  "gbt_estimator \<equiv> GBTClassifier
     [(''maxIter'', Num 10), (''featuresCol'', Str ''features''), (''labelCol'', Str ''CANCELLED''),
      (''maxBins'', Num 390)]"

abbreviation auc_evaluator :: evaluator where
  "auc_evaluator \<equiv> \<lparr>labelCol = ''CANCELLED'', metricName = ''areaUnderROC''\<rparr>"

definition the_grid :: "param_map list" where
  "the_grid = build
     (addGrid ''elasticNetParam'' [Dbl 0, Dbl (5 / 10), Dbl 1]
     (addGrid ''regParam'' [Dbl 0, Dbl (1 / 100), Dbl (1 / 10)]
     (addGrid ''maxIter'' [Num 5, Num 10, Num 100]
      ParamGridBuilder)))"

subsection \<open>A small instance of the libraries\<close>

text \<open>
  Concrete libraries and a table of three flights, on which runs can be computed. The SQL
  functions work on strings; a split with seed \<open>k\<close> puts the first \<open>k mod n\<close> of the \<open>n\<close>
  rows into the first part; a fitted model is its estimator; a pipeline model adds the
  output columns of its stages, a classifier adds a \<open>prediction\<close> column that holds
  \<open>example_quality\<close>; the evaluator reads the first prediction.
\<close>

definition example_table :: dataframe where
  "example_table =
     \<lparr>columns = [''CRS_DEP_TIME'', ''OP_CARRIER'', ''ORIGIN'', ''DEST'', ''CRS_ELAPSED_TIME'',
                 ''DISTANCE'', ''WEEK'', ''CANCELLED''],
      rows = [map_of [(''CRS_DEP_TIME'', Str ''930''), (''OP_CARRIER'', Str ''AA''),
                      (''ORIGIN'', Str ''JFK''), (''DEST'', Str ''LAX''),
                      (''CRS_ELAPSED_TIME'', Dbl 360), (''DISTANCE'', Dbl 2475),
                      (''WEEK'', Dbl 7), (''CANCELLED'', Num 0)],
              map_of [(''CRS_DEP_TIME'', Str ''1545''), (''OP_CARRIER'', Str ''DL''),
                      (''ORIGIN'', Str ''ATL''), (''DEST'', Str ''ORD''),
                      (''CRS_ELAPSED_TIME'', Dbl 125), (''DISTANCE'', Dbl 606),
                      (''WEEK'', Dbl 7), (''CANCELLED'', Num 1)],
              map_of [(''CRS_DEP_TIME'', Str ''5''), (''OP_CARRIER'', Str ''UA''),
                      (''ORIGIN'', Str ''SFO''), (''DEST'', Str ''DEN''),
                      (''CRS_ELAPSED_TIME'', Dbl 150), (''DISTANCE'', Dbl 967),
                      (''WEEK'', Dbl 8), (''CANCELLED'', Num 0)]]\<rparr>"

definition example_fn :: "string \<Rightarrow> val list \<Rightarrow> val" where
  "example_fn f args =
     (if f = ''length'' then (case args of [Str x] \<Rightarrow> Num (int (length x)) | _ \<Rightarrow> Null)
      else if f = ''=='' then (case args of [a, b] \<Rightarrow> Bool (a = b) | _ \<Rightarrow> Null)
      else if f = ''concat'' then (case args of [Str x, Str y] \<Rightarrow> Str (x @ y) | _ \<Rightarrow> Null)
      else if f = ''when'' then (case args of [c, v, w] \<Rightarrow> if c = Bool True then v else w | _ \<Rightarrow> Null)
      else Null)"

definition example_cast :: "string \<Rightarrow> val \<Rightarrow> val" where
  "example_cast t v =
     (case v of
        Str x \<Rightarrow> if t = ''double'' then Dbl (real (foldl (\<lambda>a c. 10 * a + (of_char c - 48)) 0 x)) else Null
      | _ \<Rightarrow> Null)"

definition example_split :: "real list \<Rightarrow> nat \<Rightarrow> dataframe \<Rightarrow> dataframe list option" where
  "example_split w k df =
     Some [df\<lparr>rows := take (k mod length (rows df)) (rows df)\<rparr>,
           df\<lparr>rows := drop (k mod length (rows df)) (rows df)\<rparr>]"

definition example_quality :: "estimator \<Rightarrow> real" where
  "example_quality m =
     (case m of
        LogisticRegression ps \<Rightarrow> 6 / 10
      | RandomForestClassifier ps \<Rightarrow> 5 / 10
      | GBTClassifier ps \<Rightarrow> 9 / 10
      | CrossValidator e g ev k p \<Rightarrow> 7 / 10
      | Pipeline stages \<Rightarrow> 0)"

definition stage_outputs :: "stage \<Rightarrow> string list" where
  "stage_outputs st =
     (case st of
        StringIndexer i out h \<Rightarrow> [out]
      | OneHotEncoderEstimator ins outs \<Rightarrow> outs
      | VectorAssembler ins out \<Rightarrow> [out])"

definition example_transform :: "estimator \<Rightarrow> dataframe \<Rightarrow> dataframe option" where
  "example_transform m df =
     (case m of
        Pipeline stages \<Rightarrow>
          Some \<lparr>columns = columns df @ concat (map stage_outputs stages),
                rows = map (\<lambda>r. r(''features'' \<mapsto> Vec [])) (rows df)\<rparr>
      | _ \<Rightarrow>
          Some \<lparr>columns = columns df @ [''prediction''],
                rows = map (\<lambda>r. r(''prediction'' \<mapsto> Dbl (example_quality m))) (rows df)\<rparr>)"

definition example_evaluate :: "evaluator \<Rightarrow> dataframe \<Rightarrow> real option" where
  "example_evaluate ev df =
     (case rows df of
        [] \<Rightarrow> None
      | r # _ \<Rightarrow> (case r ''prediction'' of Some (Dbl x) \<Rightarrow> Some x | _ \<Rightarrow> None))"

text \<open>
  Two outputs of the random module, and an object store that already holds a model at the
  path of the commented-out save.
\<close>

definition example_rand :: "nat \<Rightarrow> nat" where
  "example_rand i = 1"

definition example_rand' :: "nat \<Rightarrow> nat" where
  "example_rand' i = i + 2"

definition example_store :: "string \<rightharpoonup> estimator" where
  "example_store =
     [''s3a://ml-field/demo/flight-analysis/data/models/pipeline_model'' \<mapsto> Pipeline []]"

definition row_counts :: "dataframe list \<Rightarrow> nat list" where
  "row_counts dfs = map (\<lambda>df. length (rows df)) dfs"

definition example_spark :: "estimator spark" where
  "example_spark =
     \<lparr>sql = (\<lambda>q. if q = ''select * from smaller_flight_table'' then Some example_table else None),
      na_drop = (\<lambda>df. Some (df\<lparr>rows := filter
                  (\<lambda>r. list_all (\<lambda>c. r c \<noteq> None \<and> r c \<noteq> Some Null) (columns df)) (rows df)\<rparr>)),
      sample = (\<lambda>fraction seed df. Some df),
      sql_fn = example_fn,
      sql_cast = example_cast,
      jvm_randomSplit = example_split,
      fit = (\<lambda>est df. Some est),
      transform = example_transform,
      evaluate = example_evaluate\<rparr>"

section \<open>What a completed run has done\<close>

subsection \<open>Library calls\<close>

lemma fit_call_Some:
  "fit_call sp e df s = Some (m, s') \<longleftrightarrow> fit sp e df = Some m \<and> s' = logged (Call_fit e df m) s"
  by (auto simp: fit_call_def bind_eq_Some_conv)

lemma transform_call_Some:
  "transform_call sp m df s = Some (out, s') \<longleftrightarrow>
     transform sp m df = Some out \<and> s' = logged (Call_transform m df out) s"
  by (auto simp: transform_call_def bind_eq_Some_conv)

lemma evaluate_call_Some:
  "evaluate_call sp ev df s = Some (x, s') \<longleftrightarrow>
     evaluate sp ev df = Some x \<and> s' = logged (Call_evaluate ev df x) s"
  by (auto simp: evaluate_call_def bind_eq_Some_conv)

lemma randomSplit_call_None_Some:
  "randomSplit_call sp rand w None df s = Some (a, b, s') \<longleftrightarrow>
     jvm_randomSplit sp w (rand (draws s)) df = Some [a, b] \<and>
     s' = logged (Call_randomSplit w None (rand (draws s)) df [a, b]) (draws_update (\<lambda>n. n + 1) s)"
proof (cases "jvm_randomSplit sp w (rand (draws s)) df")
  case None
  then show ?thesis by (simp add: randomSplit_call_def)
next
  case (Some parts)
  show ?thesis
  proof (cases parts)
    case Nil
    with Some show ?thesis by (simp add: randomSplit_call_def)
  next
    case (Cons x xs)
    note c1 = this
    show ?thesis
    proof (cases xs)
      case Nil
      with Some c1 show ?thesis by (simp add: randomSplit_call_def)
    next
      case (Cons y ys)
      with Some c1 show ?thesis
        by (cases ys) (auto simp: randomSplit_call_def logged_def)
    qed
  qed
qed

subsection \<open>Cells\<close>

text \<open>
  Each lemma reads off, from a cell that completed, the names it read, what the libraries
  returned and the namespace it left.
\<close>

lemma fit_transform_split_Some:
  assumes "fit_transform_split sp rand s = Some s'"
  obtains p df pm out d tr te where
    "pipeline s = Some p" "flight_df s = Some df"
    "fit sp p df = Some pm" "transform sp pm df = Some out"
    "select [''CANCELLED'', ''features''] out = Some d"
    "jvm_randomSplit sp [0.7, 0.3] (rand (draws s)) d = Some [tr, te]"
    "s' = calls_update (\<lambda>cs. cs @ [Call_fit p df pm, Call_transform pm df out,
                                Call_randomSplit [0.7, 0.3] None (rand (draws s)) d [tr, te]])
        (draws_update (\<lambda>n. n + 1) (s\<lparr>pipelineModel := Some pm, model_df := Some d,
            selectedCols := Some [''CANCELLED'', ''features''], train := Some tr, test := Some te\<rparr>))"
  using assms unfolding fit_transform_split_def
  by (auto simp: bind_eq_Some_conv Let_def fit_call_Some transform_call_Some
        randomSplit_call_None_Some logged_def)

lemma cell_import_data_Some:
  assumes "cell_import_data sp s = Some s'"
  obtains fdo dr fd where
    "sql sp ''select * from smaller_flight_table'' = Some fdo"
    "na_drop sp fdo = Some dr" "sample sp (1 / 600) 111 dr = Some fd"
    "s' = s\<lparr>flight_df_original := Some fdo, flight_df := Some fd\<rparr>"
  using assms unfolding cell_import_data_def by (auto simp: bind_eq_Some_conv)

lemma cell_feature_engineering_Some:
  assumes "cell_feature_engineering sp s = Some s'"
  obtains fd fd' where
    "flight_df s = Some fd" "feature_engineering sp fd = Some fd'"
    "s' = s\<lparr>flight_df := Some fd'\<rparr>"
  using assms unfolding cell_feature_engineering_def by (auto simp: bind_eq_Some_conv)

lemma cell_pipeline_Some:
  assumes "cell_pipeline s = Some s'"
  shows "s' = calls_update (\<lambda>cs. cs @ [Call_Pipeline encoded_stages])
        (s\<lparr>numeric_cols := Some numeric,
            op_carrier_indexer := Some (StringIndexer ''OP_CARRIER'' ''OP_CARRIER_INDEXED'' ''keep''),
            origin_indexer := Some (StringIndexer ''ORIGIN'' ''ORIGIN_INDEXED'' ''keep''),
            dest_indexer := Some (StringIndexer ''DEST'' ''DEST_INDEXED'' ''keep''),
            indexer_encoder := Some (OneHotEncoderEstimator
               [''OP_CARRIER_INDEXED'', ''ORIGIN_INDEXED'', ''DEST_INDEXED'']
               [''OP_CARRIER_ENCODED'', ''ORIGIN_ENCODED'', ''DEST_ENCODED'']),
            input_cols := Some ([''OP_CARRIER_ENCODED'', ''ORIGIN_ENCODED'', ''DEST_ENCODED''] @ numeric),
            assembler := Some (VectorAssembler
               ([''OP_CARRIER_ENCODED'', ''ORIGIN_ENCODED'', ''DEST_ENCODED''] @ numeric) ''features''),
            pipeline := Some (Pipeline encoded_stages)\<rparr>)"
  using assms unfolding cell_pipeline_def by (auto simp: Let_def Pipeline_call_def logged_def)

lemma cell_lr_Some:
  assumes "cell_lr sp s = Some s'"
  obtains tr m where "train s = Some tr" "fit sp lr_estimator tr = Some m"
    "s' = calls_update (\<lambda>cs. cs @ [Call_fit lr_estimator tr m])
        (s\<lparr>lr := Some lr_estimator, lrModel := Some m\<rparr>)"
  using assms unfolding cell_lr_def
  by (auto simp: bind_eq_Some_conv Let_def fit_call_Some logged_def)

lemma cell_rf_Some:
  assumes "cell_rf sp s = Some s'"
  obtains tr m where "train s = Some tr" "fit sp rf_estimator tr = Some m"
    "s' = calls_update (\<lambda>cs. cs @ [Call_fit rf_estimator tr m])
        (s\<lparr>rfclassifier := Some rf_estimator, rfmodel := Some m\<rparr>)"
  using assms unfolding cell_rf_def
  by (auto simp: bind_eq_Some_conv Let_def fit_call_Some logged_def)

lemma cell_gbt_Some:
  assumes "cell_gbt sp s = Some s'"
  obtains tr m where "train s = Some tr" "fit sp gbt_estimator tr = Some m"
    "s' = calls_update (\<lambda>cs. cs @ [Call_fit gbt_estimator tr m])
        (s\<lparr>gbt := Some gbt_estimator, gbtModel := Some m\<rparr>)"
  using assms unfolding cell_gbt_def
  by (auto simp: bind_eq_Some_conv Let_def fit_call_Some logged_def)

lemma cell_lr_evaluate_Some:
  assumes "cell_lr_evaluate sp s = Some s'"
  obtains m te p x where "lrModel s = Some m" "test s = Some te"
    "transform sp m te = Some p" "evaluate sp auc_evaluator p = Some x"
    "s' = calls_update (\<lambda>cs. cs @ [Call_transform m te p, Call_evaluate auc_evaluator p x])
        (Out_update (\<lambda>os. os @ [x]) (s\<lparr>predictionslr := Some p, evaluator := Some auc_evaluator\<rparr>))"
  using assms unfolding cell_lr_evaluate_def
  by (auto simp: bind_eq_Some_conv Let_def transform_call_Some evaluate_call_Some logged_def)

lemma cell_rf_evaluate_Some:
  assumes "cell_rf_evaluate sp s = Some s'"
  obtains m te p x where "rfmodel s = Some m" "test s = Some te"
    "transform sp m te = Some p" "evaluate sp auc_evaluator p = Some x"
    "s' = calls_update (\<lambda>cs. cs @ [Call_transform m te p, Call_evaluate auc_evaluator p x])
        (Out_update (\<lambda>os. os @ [x]) (s\<lparr>predictionsrf := Some p, evaluator := Some auc_evaluator\<rparr>))"
  using assms unfolding cell_rf_evaluate_def
  by (auto simp: bind_eq_Some_conv Let_def transform_call_Some evaluate_call_Some logged_def)

lemma cell_gbt_evaluate_Some:
  assumes "cell_gbt_evaluate sp s = Some s'"
  obtains m te p x where "gbtModel s = Some m" "test s = Some te"
    "transform sp m te = Some p" "evaluate sp auc_evaluator p = Some x"
    "s' = calls_update (\<lambda>cs. cs @ [Call_transform m te p, Call_evaluate auc_evaluator p x])
        (Out_update (\<lambda>os. os @ [x]) (s\<lparr>predictionsgbt := Some p, evaluator := Some auc_evaluator\<rparr>))"
  using assms unfolding cell_gbt_evaluate_def
  by (auto simp: bind_eq_Some_conv Let_def transform_call_Some evaluate_call_Some logged_def)

lemma cell_rebuild_Some:
  assumes "cell_rebuild sp rand s = Some s'"
  obtains nc i1 i2 i3 s1 where
    "numeric_cols s = Some nc" "op_carrier_indexer s = Some i1" "origin_indexer s = Some i2"
    "dest_indexer s = Some i3"
    "s1 = calls_update (\<lambda>cs. cs @ [Call_Pipeline [i1, i2, i3, VectorAssembler
             ([''OP_CARRIER_INDEXED'', ''ORIGIN_INDEXED'', ''DEST_INDEXED''] @ nc) ''features'']])
        (s\<lparr>input_cols := Some ([''OP_CARRIER_INDEXED'', ''ORIGIN_INDEXED'', ''DEST_INDEXED''] @ nc),
          assembler := Some (VectorAssembler
             ([''OP_CARRIER_INDEXED'', ''ORIGIN_INDEXED'', ''DEST_INDEXED''] @ nc) ''features''),
          pipeline := Some (Pipeline [i1, i2, i3, VectorAssembler
             ([''OP_CARRIER_INDEXED'', ''ORIGIN_INDEXED'', ''DEST_INDEXED''] @ nc) ''features''])\<rparr>)"
    "fit_transform_split sp rand s1 = Some s'"
proof -
  from assms obtain nc i1 i2 i3 where r:
    "numeric_cols s = Some nc" "op_carrier_indexer s = Some i1" "origin_indexer s = Some i2"
    "dest_indexer s = Some i3"
    by (auto simp: cell_rebuild_def bind_eq_Some_conv Let_def)
  with assms have "fit_transform_split sp rand
      ((logged (Call_Pipeline [i1, i2, i3, VectorAssembler
             ([''OP_CARRIER_INDEXED'', ''ORIGIN_INDEXED'', ''DEST_INDEXED''] @ nc) ''features'']) s)
        \<lparr>input_cols := Some ([''OP_CARRIER_INDEXED'', ''ORIGIN_INDEXED'', ''DEST_INDEXED''] @ nc),
         assembler := Some (VectorAssembler
             ([''OP_CARRIER_INDEXED'', ''ORIGIN_INDEXED'', ''DEST_INDEXED''] @ nc) ''features''),
         pipeline := Some (Pipeline [i1, i2, i3, VectorAssembler
             ([''OP_CARRIER_INDEXED'', ''ORIGIN_INDEXED'', ''DEST_INDEXED''] @ nc) ''features''])\<rparr>)
      = Some s'"
    by (simp add: cell_rebuild_def Pipeline_call_def Let_def)
  with r show ?thesis
    by (intro that[OF r]) (auto simp: logged_def)
qed

lemma cell_rebuild_again_Some:
  assumes "cell_rebuild_again sp rand s = Some s'"
  obtains nc i1 i2 i3 enc s1 where
    "numeric_cols s = Some nc" "op_carrier_indexer s = Some i1" "origin_indexer s = Some i2"
    "dest_indexer s = Some i3" "indexer_encoder s = Some enc"
    "s1 = calls_update (\<lambda>cs. cs @ [Call_Pipeline [i1, i2, i3, enc, VectorAssembler
             ([''OP_CARRIER_ENCODED'', ''ORIGIN_ENCODED'', ''DEST_ENCODED''] @ nc) ''features'']])
        (s\<lparr>input_cols := Some ([''OP_CARRIER_ENCODED'', ''ORIGIN_ENCODED'', ''DEST_ENCODED''] @ nc),
          assembler := Some (VectorAssembler
             ([''OP_CARRIER_ENCODED'', ''ORIGIN_ENCODED'', ''DEST_ENCODED''] @ nc) ''features''),
          pipeline := Some (Pipeline [i1, i2, i3, enc, VectorAssembler
             ([''OP_CARRIER_ENCODED'', ''ORIGIN_ENCODED'', ''DEST_ENCODED''] @ nc) ''features''])\<rparr>)"
    "fit_transform_split sp rand s1 = Some s'"
proof -
  from assms obtain nc i1 i2 i3 enc where r:
    "numeric_cols s = Some nc" "op_carrier_indexer s = Some i1" "origin_indexer s = Some i2"
    "dest_indexer s = Some i3" "indexer_encoder s = Some enc"
    by (auto simp: cell_rebuild_again_def bind_eq_Some_conv Let_def)
  with assms have "fit_transform_split sp rand
      ((logged (Call_Pipeline [i1, i2, i3, enc, VectorAssembler
             ([''OP_CARRIER_ENCODED'', ''ORIGIN_ENCODED'', ''DEST_ENCODED''] @ nc) ''features'']) s)
        \<lparr>input_cols := Some ([''OP_CARRIER_ENCODED'', ''ORIGIN_ENCODED'', ''DEST_ENCODED''] @ nc),
         assembler := Some (VectorAssembler
             ([''OP_CARRIER_ENCODED'', ''ORIGIN_ENCODED'', ''DEST_ENCODED''] @ nc) ''features''),
         pipeline := Some (Pipeline [i1, i2, i3, enc, VectorAssembler
             ([''OP_CARRIER_ENCODED'', ''ORIGIN_ENCODED'', ''DEST_ENCODED''] @ nc) ''features''])\<rparr>)
      = Some s'"
    by (simp add: cell_rebuild_again_def Pipeline_call_def Let_def)
  with r show ?thesis
    by (intro that[OF r]) (auto simp: logged_def)
qed

lemma cell_cross_validate_Some:
  assumes "cell_cross_validate sp s = Some s'"
  obtains m0 e ev tr m where "lrModel s = Some m0" "lr s = Some e" "evaluator s = Some ev"
    "train s = Some tr" "fit sp (CrossValidator e the_grid ev 5 3) tr = Some m"
    "s' = calls_update (\<lambda>cs. cs @ [Call_fit (CrossValidator e the_grid ev 5 3) tr m])
        (s\<lparr>paramGrid := Some the_grid, cv := Some (CrossValidator e the_grid ev 5 3),
            cvModel := Some m\<rparr>)"
  using assms unfolding cell_cross_validate_def the_grid_def
  by (auto simp: bind_eq_Some_conv Let_def fit_call_Some logged_def)

lemma cell_cv_evaluate_Some:
  assumes "cell_cv_evaluate sp s = Some s'"
  obtains m te p ev x where "cvModel s = Some m" "test s = Some te"
    "transform sp m te = Some p" "evaluator s = Some ev" "evaluate sp ev p = Some x"
    "s' = calls_update (\<lambda>cs. cs @ [Call_transform m te p, Call_evaluate ev p x])
        (Out_update (\<lambda>os. os @ [x]) (s\<lparr>predictions := Some p\<rparr>))"
  using assms unfolding cell_cv_evaluate_def
  by (auto simp: bind_eq_Some_conv Let_def transform_call_Some evaluate_call_Some logged_def)

subsection \<open>The whole run\<close>

text \<open>
  A completed run made exactly these 24 calls, on these arguments and with these results,
  and left these bindings.
\<close>

lemma run_Some:
  assumes "run sp rand st = Some s"
  obtains fdo dr fd0 fd pm1 out1 d1 tr1 te1 mlr prd_lr a
          pm2 out2 d2 tr2 te2 mrf prd_rf b mgbt prd_gbt c
          pm3 out3 d3 tr3 te3 mcv prd_cv d
  where
    "sql sp ''select * from smaller_flight_table'' = Some fdo"
    "na_drop sp fdo = Some dr"
    "sample sp (1 / 600) 111 dr = Some fd0"
    "feature_engineering sp fd0 = Some fd"
    "fit sp (Pipeline encoded_stages) fd = Some pm1"
    "transform sp pm1 fd = Some out1"
    "select [''CANCELLED'', ''features''] out1 = Some d1"
    "jvm_randomSplit sp [0.7, 0.3] (rand 0) d1 = Some [tr1, te1]"
    "fit sp lr_estimator tr1 = Some mlr"
    "transform sp mlr te1 = Some prd_lr"
    "evaluate sp auc_evaluator prd_lr = Some a"
    "fit sp (Pipeline indexed_stages) fd = Some pm2"
    "transform sp pm2 fd = Some out2"
    "select [''CANCELLED'', ''features''] out2 = Some d2"
    "jvm_randomSplit sp [0.7, 0.3] (rand 1) d2 = Some [tr2, te2]"
    "fit sp rf_estimator tr2 = Some mrf"
    "transform sp mrf te2 = Some prd_rf"
    "evaluate sp auc_evaluator prd_rf = Some b"
    "fit sp gbt_estimator tr2 = Some mgbt"
    "transform sp mgbt te2 = Some prd_gbt"
    "evaluate sp auc_evaluator prd_gbt = Some c"
    "fit sp (Pipeline encoded_stages) fd = Some pm3"
    "transform sp pm3 fd = Some out3"
    "select [''CANCELLED'', ''features''] out3 = Some d3"
    "jvm_randomSplit sp [0.7, 0.3] (rand 2) d3 = Some [tr3, te3]"
    "fit sp (CrossValidator lr_estimator the_grid auc_evaluator 5 3) tr3 = Some mcv"
    "transform sp mcv te3 = Some prd_cv"
    "evaluate sp auc_evaluator prd_cv = Some d"
    "calls s =
       [Call_Pipeline encoded_stages,
        Call_fit (Pipeline encoded_stages) fd pm1,
        Call_transform pm1 fd out1,
        Call_randomSplit [0.7, 0.3] None (rand 0) d1 [tr1, te1],
        Call_fit lr_estimator tr1 mlr,
        Call_transform mlr te1 prd_lr,
        Call_evaluate auc_evaluator prd_lr a,
        Call_Pipeline indexed_stages,
        Call_fit (Pipeline indexed_stages) fd pm2,
        Call_transform pm2 fd out2,
        Call_randomSplit [0.7, 0.3] None (rand 1) d2 [tr2, te2],
        Call_fit rf_estimator tr2 mrf,
        Call_transform mrf te2 prd_rf,
        Call_evaluate auc_evaluator prd_rf b,
        Call_fit gbt_estimator tr2 mgbt,
        Call_transform mgbt te2 prd_gbt,
        Call_evaluate auc_evaluator prd_gbt c,
        Call_Pipeline encoded_stages,
        Call_fit (Pipeline encoded_stages) fd pm3,
        Call_transform pm3 fd out3,
        Call_randomSplit [0.7, 0.3] None (rand 2) d3 [tr3, te3],
        Call_fit (CrossValidator lr_estimator the_grid auc_evaluator 5 3) tr3 mcv,
        Call_transform mcv te3 prd_cv,
        Call_evaluate auc_evaluator prd_cv d]"
    "Out s = [a, b, c, d]"
    "store s = st"
    "draws s = 3"
    "lr s = Some lr_estimator"
    "rfclassifier s = Some rf_estimator"
    "gbt s = Some gbt_estimator"
    "paramGrid s = Some the_grid"
    "cv s = Some (CrossValidator lr_estimator the_grid auc_evaluator 5 3)"
    "flight_df s = Some fd"
    "train s = Some tr3"
    "test s = Some te3"
proof -
  from assms obtain s1 s2 s3 s4 s5 s6 s7 s8 s9 s10 s11 s12 s13 s14 where
    c1: "cell_import_data sp (empty_namespace st) = Some s1" and
    c2: "cell_feature_engineering sp s1 = Some s2" and
    c3: "cell_pipeline s2 = Some s3" and
    c4: "fit_transform_split sp rand s3 = Some s4" and
    c5: "cell_lr sp s4 = Some s5" and
    c6: "cell_lr_evaluate sp s5 = Some s6" and
    c7: "cell_save s6 = Some s7" and
    c8: "cell_rebuild sp rand s7 = Some s8" and
    c9: "cell_rf sp s8 = Some s9" and
    c10: "cell_rf_evaluate sp s9 = Some s10" and
    c11: "cell_gbt sp s10 = Some s11" and
    c12: "cell_gbt_evaluate sp s11 = Some s12" and
    c13: "cell_rebuild_again sp rand s12 = Some s13" and
    c14: "cell_cross_validate sp s13 = Some s14" and
    c15: "cell_cv_evaluate sp s14 = Some s"
    unfolding run_def cell_train_test_def by (auto simp: bind_eq_Some_conv)
  \<comment> \<open>loading and feature engineering\<close>
  from c1 obtain fdo dr fd0 where
    l1: "sql sp ''select * from smaller_flight_table'' = Some fdo"
        "na_drop sp fdo = Some dr" "sample sp (1 / 600) 111 dr = Some fd0" and
    e1: "s1 = (empty_namespace st)\<lparr>flight_df_original := Some fdo, flight_df := Some fd0\<rparr>"
    by (rule cell_import_data_Some)
  have z: "draws s1 = 0" "store s1 = st" "Out s1 = []" "calls s1 = []" "flight_df s1 = Some fd0"
    by (simp_all add: e1 empty_namespace_def)
  from c2 obtain fd0' fd where
    r2: "flight_df s1 = Some fd0'" and l2: "feature_engineering sp fd0' = Some fd" and
    e2: "s2 = s1\<lparr>flight_df := Some fd\<rparr>"
    by (rule cell_feature_engineering_Some)
  have v2: "fd0' = fd0" using r2 by (simp add: z)
  note l2 = l2[unfolded v2]
  note e3 = cell_pipeline_Some[OF c3]
  \<comment> \<open>first fit, transform and split\<close>
  from c4 obtain p1 df1 pm1 out1 d1 tr1 te1 where
    r4: "pipeline s3 = Some p1" "flight_df s3 = Some df1" and
    l4: "fit sp p1 df1 = Some pm1" "transform sp pm1 df1 = Some out1"
        "select [''CANCELLED'', ''features''] out1 = Some d1"
        "jvm_randomSplit sp [0.7, 0.3] (rand (draws s3)) d1 = Some [tr1, te1]" and
    e4: "s4 = calls_update (\<lambda>cs. cs @ [Call_fit p1 df1 pm1, Call_transform pm1 df1 out1,
                                Call_randomSplit [0.7, 0.3] None (rand (draws s3)) d1 [tr1, te1]])
        (draws_update (\<lambda>n. n + 1) (s3\<lparr>pipelineModel := Some pm1, model_df := Some d1,
            selectedCols := Some [''CANCELLED'', ''features''], train := Some tr1, test := Some te1\<rparr>))"
    by (rule fit_transform_split_Some)
  have v4: "p1 = Pipeline encoded_stages" "df1 = fd" "draws s3 = 0"
    using r4 by (simp_all add: e3 e2 z)
  note l4 = l4[unfolded v4] and e4 = e4[unfolded v4]
  \<comment> \<open>logistic regression\<close>
  from c5 obtain x5 mlr where
    r5: "train s4 = Some x5" and l5: "fit sp lr_estimator x5 = Some mlr" and
    e5: "s5 = calls_update (\<lambda>cs. cs @ [Call_fit lr_estimator x5 mlr])
        (s4\<lparr>lr := Some lr_estimator, lrModel := Some mlr\<rparr>)"
    by (rule cell_lr_Some)
  have v5: "x5 = tr1" using r5 by (simp add: e4)
  note l5 = l5[unfolded v5] and e5 = e5[unfolded v5]
  from c6 obtain m6 x6 prd_lr a where
    r6: "lrModel s5 = Some m6" "test s5 = Some x6" and
    l6: "transform sp m6 x6 = Some prd_lr" "evaluate sp auc_evaluator prd_lr = Some a" and
    e6: "s6 = calls_update (\<lambda>cs. cs @ [Call_transform m6 x6 prd_lr, Call_evaluate auc_evaluator prd_lr a])
        (Out_update (\<lambda>os. os @ [a]) (s5\<lparr>predictionslr := Some prd_lr, evaluator := Some auc_evaluator\<rparr>))"
    by (rule cell_lr_evaluate_Some)
  have v6: "m6 = mlr" "x6 = te1" using r6 by (simp_all add: e5 e4)
  note l6 = l6[unfolded v6] and e6 = e6[unfolded v6]
  from c7 have e7: "s7 = s6" by (simp add: cell_save_def)
  \<comment> \<open>the rebuilt pipeline, random forest and gradient-boosted trees\<close>
  from c8 obtain nc i1 i2 i3 s7' where
    r8: "numeric_cols s7 = Some nc" "op_carrier_indexer s7 = Some i1" "origin_indexer s7 = Some i2"
        "dest_indexer s7 = Some i3" and
    e7': "s7' = calls_update (\<lambda>cs. cs @ [Call_Pipeline [i1, i2, i3, VectorAssembler
             ([''OP_CARRIER_INDEXED'', ''ORIGIN_INDEXED'', ''DEST_INDEXED''] @ nc) ''features'']])
        (s7\<lparr>input_cols := Some ([''OP_CARRIER_INDEXED'', ''ORIGIN_INDEXED'', ''DEST_INDEXED''] @ nc),
          assembler := Some (VectorAssembler
             ([''OP_CARRIER_INDEXED'', ''ORIGIN_INDEXED'', ''DEST_INDEXED''] @ nc) ''features''),
          pipeline := Some (Pipeline [i1, i2, i3, VectorAssembler
             ([''OP_CARRIER_INDEXED'', ''ORIGIN_INDEXED'', ''DEST_INDEXED''] @ nc) ''features''])\<rparr>)" and
    f8: "fit_transform_split sp rand s7' = Some s8"
    by (rule cell_rebuild_Some)
  have v8: "nc = numeric" "i1 = StringIndexer ''OP_CARRIER'' ''OP_CARRIER_INDEXED'' ''keep''"
    "i2 = StringIndexer ''ORIGIN'' ''ORIGIN_INDEXED'' ''keep''"
    "i3 = StringIndexer ''DEST'' ''DEST_INDEXED'' ''keep''"
    using r8 by (simp_all add: e7 e6 e5 e4 e3)
  note e7' = e7'[unfolded v8]
  from f8 obtain p2 df2 pm2 out2 d2 tr2 te2 where
    r8': "pipeline s7' = Some p2" "flight_df s7' = Some df2" and
    l8: "fit sp p2 df2 = Some pm2" "transform sp pm2 df2 = Some out2"
        "select [''CANCELLED'', ''features''] out2 = Some d2"
        "jvm_randomSplit sp [0.7, 0.3] (rand (draws s7')) d2 = Some [tr2, te2]" and
    e8: "s8 = calls_update (\<lambda>cs. cs @ [Call_fit p2 df2 pm2, Call_transform pm2 df2 out2,
                                Call_randomSplit [0.7, 0.3] None (rand (draws s7')) d2 [tr2, te2]])
        (draws_update (\<lambda>n. n + 1) (s7'\<lparr>pipelineModel := Some pm2, model_df := Some d2,
            selectedCols := Some [''CANCELLED'', ''features''], train := Some tr2, test := Some te2\<rparr>))"
    by (rule fit_transform_split_Some)
  have v8': "p2 = Pipeline indexed_stages" "df2 = fd" "draws s7' = 1"
    using r8' by (simp_all add: e7' e7 e6 e5 e4 e3 e2 z)
  note l8 = l8[unfolded v8'] and e8 = e8[unfolded v8']
  from c9 obtain x9 mrf where
    r9: "train s8 = Some x9" and l9: "fit sp rf_estimator x9 = Some mrf" and
    e9: "s9 = calls_update (\<lambda>cs. cs @ [Call_fit rf_estimator x9 mrf])
        (s8\<lparr>rfclassifier := Some rf_estimator, rfmodel := Some mrf\<rparr>)"
    by (rule cell_rf_Some)
  have v9: "x9 = tr2" using r9 by (simp add: e8)
  note l9 = l9[unfolded v9] and e9 = e9[unfolded v9]
  from c10 obtain m10 x10 prd_rf b where
    r10: "rfmodel s9 = Some m10" "test s9 = Some x10" and
    l10: "transform sp m10 x10 = Some prd_rf" "evaluate sp auc_evaluator prd_rf = Some b" and
    e10: "s10 = calls_update (\<lambda>cs. cs @ [Call_transform m10 x10 prd_rf, Call_evaluate auc_evaluator prd_rf b])
        (Out_update (\<lambda>os. os @ [b]) (s9\<lparr>predictionsrf := Some prd_rf, evaluator := Some auc_evaluator\<rparr>))"
    by (rule cell_rf_evaluate_Some)
  have v10: "m10 = mrf" "x10 = te2" using r10 by (simp_all add: e9 e8)
  note l10 = l10[unfolded v10] and e10 = e10[unfolded v10]
  from c11 obtain x11 mgbt where
    r11: "train s10 = Some x11" and l11: "fit sp gbt_estimator x11 = Some mgbt" and
    e11: "s11 = calls_update (\<lambda>cs. cs @ [Call_fit gbt_estimator x11 mgbt])
        (s10\<lparr>gbt := Some gbt_estimator, gbtModel := Some mgbt\<rparr>)"
    by (rule cell_gbt_Some)
  have v11: "x11 = tr2" using r11 by (simp add: e10 e9 e8)
  note l11 = l11[unfolded v11] and e11 = e11[unfolded v11]
  from c12 obtain m12 x12 prd_gbt c where
    r12: "gbtModel s11 = Some m12" "test s11 = Some x12" and
    l12: "transform sp m12 x12 = Some prd_gbt" "evaluate sp auc_evaluator prd_gbt = Some c" and
    e12: "s12 = calls_update (\<lambda>cs. cs @ [Call_transform m12 x12 prd_gbt, Call_evaluate auc_evaluator prd_gbt c])
        (Out_update (\<lambda>os. os @ [c]) (s11\<lparr>predictionsgbt := Some prd_gbt, evaluator := Some auc_evaluator\<rparr>))"
    by (rule cell_gbt_evaluate_Some)
  have v12: "m12 = mgbt" "x12 = te2" using r12 by (simp_all add: e11 e10 e9 e8)
  note l12 = l12[unfolded v12] and e12 = e12[unfolded v12]
  \<comment> \<open>the pipeline rebuilt again, and the grid search\<close>
  from c13 obtain nc' j1 j2 j3 enc s12' where
    r13: "numeric_cols s12 = Some nc'" "op_carrier_indexer s12 = Some j1"
        "origin_indexer s12 = Some j2" "dest_indexer s12 = Some j3" "indexer_encoder s12 = Some enc" and
    e12': "s12' = calls_update (\<lambda>cs. cs @ [Call_Pipeline [j1, j2, j3, enc, VectorAssembler
             ([''OP_CARRIER_ENCODED'', ''ORIGIN_ENCODED'', ''DEST_ENCODED''] @ nc') ''features'']])
        (s12\<lparr>input_cols := Some ([''OP_CARRIER_ENCODED'', ''ORIGIN_ENCODED'', ''DEST_ENCODED''] @ nc'),
          assembler := Some (VectorAssembler
             ([''OP_CARRIER_ENCODED'', ''ORIGIN_ENCODED'', ''DEST_ENCODED''] @ nc') ''features''),
          pipeline := Some (Pipeline [j1, j2, j3, enc, VectorAssembler
             ([''OP_CARRIER_ENCODED'', ''ORIGIN_ENCODED'', ''DEST_ENCODED''] @ nc') ''features''])\<rparr>)" and
    f13: "fit_transform_split sp rand s12' = Some s13"
    by (rule cell_rebuild_again_Some)
  have v13: "nc' = numeric" "j1 = StringIndexer ''OP_CARRIER'' ''OP_CARRIER_INDEXED'' ''keep''"
    "j2 = StringIndexer ''ORIGIN'' ''ORIGIN_INDEXED'' ''keep''"
    "j3 = StringIndexer ''DEST'' ''DEST_INDEXED'' ''keep''" "enc = encoder"
    using r13 by (simp_all add: e12 e11 e10 e9 e8 e7' e7 e6 e5 e4 e3)
  note e12' = e12'[unfolded v13]
  from f13 obtain p3 df3 pm3 out3 d3 tr3 te3 where
    r13': "pipeline s12' = Some p3" "flight_df s12' = Some df3" and
    l13: "fit sp p3 df3 = Some pm3" "transform sp pm3 df3 = Some out3"
        "select [''CANCELLED'', ''features''] out3 = Some d3"
        "jvm_randomSplit sp [0.7, 0.3] (rand (draws s12')) d3 = Some [tr3, te3]" and
    e13: "s13 = calls_update (\<lambda>cs. cs @ [Call_fit p3 df3 pm3, Call_transform pm3 df3 out3,
                                Call_randomSplit [0.7, 0.3] None (rand (draws s12')) d3 [tr3, te3]])
        (draws_update (\<lambda>n. n + 1) (s12'\<lparr>pipelineModel := Some pm3, model_df := Some d3,
            selectedCols := Some [''CANCELLED'', ''features''], train := Some tr3, test := Some te3\<rparr>))"
    by (rule fit_transform_split_Some)
  have v13': "p3 = Pipeline encoded_stages" "df3 = fd" "draws s12' = 2"
    using r13' by (simp_all add: e12' e12 e11 e10 e9 e8 e7' e7 e6 e5 e4 e3 e2 z)
  note l13 = l13[unfolded v13'] and e13 = e13[unfolded v13']
  from c14 obtain m14 e14a ev14 x14 mcv where
    r14: "lrModel s13 = Some m14" "lr s13 = Some e14a" "evaluator s13 = Some ev14"
         "train s13 = Some x14" and
    l14: "fit sp (CrossValidator e14a the_grid ev14 5 3) x14 = Some mcv" and
    e14: "s14 = calls_update (\<lambda>cs. cs @ [Call_fit (CrossValidator e14a the_grid ev14 5 3) x14 mcv])
        (s13\<lparr>paramGrid := Some the_grid, cv := Some (CrossValidator e14a the_grid ev14 5 3),
            cvModel := Some mcv\<rparr>)"
    by (rule cell_cross_validate_Some)
  have v14: "e14a = lr_estimator" "ev14 = auc_evaluator" "x14 = tr3"
    using r14 by (simp_all add: e13 e12' e12 e11 e10 e9 e8 e7' e7 e6 e5)
  note l14 = l14[unfolded v14] and e14 = e14[unfolded v14]
  from c15 obtain m15 x15 prd_cv ev15 d where
    r15: "cvModel s14 = Some m15" "test s14 = Some x15" "evaluator s14 = Some ev15" and
    l15: "transform sp m15 x15 = Some prd_cv" "evaluate sp ev15 prd_cv = Some d" and
    e15: "s = calls_update (\<lambda>cs. cs @ [Call_transform m15 x15 prd_cv, Call_evaluate ev15 prd_cv d])
        (Out_update (\<lambda>os. os @ [d]) (s14\<lparr>predictions := Some prd_cv\<rparr>))"
    by (rule cell_cv_evaluate_Some)
  have v15: "m15 = mcv" "x15 = te3" "ev15 = auc_evaluator"
    using r15 by (simp_all add: e14 e13 e12' e12)
  note l15 = l15[unfolded v15] and e15 = e15[unfolded v15]
  note es = e15 e14 e13 e12' e12 e11 e10 e9 e8 e7' e7 e6 e5 e4 e3 e2 z
  have "calls s =
       [Call_Pipeline encoded_stages,
        Call_fit (Pipeline encoded_stages) fd pm1,
        Call_transform pm1 fd out1,
        Call_randomSplit [0.7, 0.3] None (rand 0) d1 [tr1, te1],
        Call_fit lr_estimator tr1 mlr,
        Call_transform mlr te1 prd_lr,
        Call_evaluate auc_evaluator prd_lr a,
        Call_Pipeline indexed_stages,
        Call_fit (Pipeline indexed_stages) fd pm2,
        Call_transform pm2 fd out2,
        Call_randomSplit [0.7, 0.3] None (rand 1) d2 [tr2, te2],
        Call_fit rf_estimator tr2 mrf,
        Call_transform mrf te2 prd_rf,
        Call_evaluate auc_evaluator prd_rf b,
        Call_fit gbt_estimator tr2 mgbt,
        Call_transform mgbt te2 prd_gbt,
        Call_evaluate auc_evaluator prd_gbt c,
        Call_Pipeline encoded_stages,
        Call_fit (Pipeline encoded_stages) fd pm3,
        Call_transform pm3 fd out3,
        Call_randomSplit [0.7, 0.3] None (rand 2) d3 [tr3, te3],
        Call_fit (CrossValidator lr_estimator the_grid auc_evaluator 5 3) tr3 mcv,
        Call_transform mcv te3 prd_cv,
        Call_evaluate auc_evaluator prd_cv d]"
    by (simp add: es)
  moreover have "Out s = [a, b, c, d]" "store s = st" "draws s = 3"
    "lr s = Some lr_estimator" "rfclassifier s = Some rf_estimator" "gbt s = Some gbt_estimator"
    "paramGrid s = Some the_grid"
    "cv s = Some (CrossValidator lr_estimator the_grid auc_evaluator 5 3)"
    "flight_df s = Some fd" "train s = Some tr3" "test s = Some te3"
    by (simp_all add: es)
  moreover note l1 l2 l4 l5 l6 l8 l9 l10 l11 l12 l13 l14 l15
  ultimately show ?thesis by (rule that[rotated 28])
qed

text \<open>The same, read through the projections of the record of calls.\<close>

lemma run_summary:
  assumes "run sp rand st = Some s"
  obtains fdo dr fd0 fd pm1 out1 d1 pm2 out2 d2 tr1 te1 tr2 te2 tr3 te3 a b c d where
    "sql sp ''select * from smaller_flight_table'' = Some fdo"
    "na_drop sp fdo = Some dr"
    "sample sp (1 / 600) 111 dr = Some fd0"
    "feature_engineering sp fd0 = Some fd"
    "fit sp (Pipeline encoded_stages) fd = Some pm1"
    "transform sp pm1 fd = Some out1"
    "select [''CANCELLED'', ''features''] out1 = Some d1"
    "fit sp (Pipeline indexed_stages) fd = Some pm2"
    "transform sp pm2 fd = Some out2"
    "select [''CANCELLED'', ''features''] out2 = Some d2"
    "jvm_randomSplit sp [0.7, 0.3] (rand 0) d1 = Some [tr1, te1]"
    "jvm_randomSplit sp [0.7, 0.3] (rand 1) d2 = Some [tr2, te2]"
    "jvm_randomSplit sp [0.7, 0.3] (rand 2) d1 = Some [tr3, te3]"
    "built_pipelines (calls s) = [encoded_stages, indexed_stages, encoded_stages]"
    "builds_followed_by_split (calls s)"
    "splits (calls s) =
       [([0.7, 0.3], None, rand 0, d1, [tr1, te1]),
        ([0.7, 0.3], None, rand 1, d2, [tr2, te2]),
        ([0.7, 0.3], None, rand 2, d1, [tr3, te3])]"
    "experiments (calls s) =
       [(lr_estimator, tr1, te1, auc_evaluator, a),
        (rf_estimator, tr2, te2, auc_evaluator, b),
        (gbt_estimator, tr2, te2, auc_evaluator, c),
        (CrossValidator lr_estimator the_grid auc_evaluator 5 3, tr3, te3, auc_evaluator, d)]"
    "saves (calls s) = []"
    "Out s = [a, b, c, d]"
    "store s = st"
    "train s = Some tr3"
    "test s = Some te3"
proof -
  from assms obtain fdo dr fd0 fd pm1 out1 d1 tr1 te1 pm2 out2 d2 tr2 te2 pm3 out3 d3 tr3 te3
    mlr prd_lr a mrf prd_rf b mgbt prd_gbt c mcv prd_cv d where
    l: "sql sp ''select * from smaller_flight_table'' = Some fdo"
       "na_drop sp fdo = Some dr"
       "sample sp (1 / 600) 111 dr = Some fd0"
       "feature_engineering sp fd0 = Some fd"
    and f1: "fit sp (Pipeline encoded_stages) fd = Some pm1" "transform sp pm1 fd = Some out1"
      "select [''CANCELLED'', ''features''] out1 = Some d1"
    and f2: "fit sp (Pipeline indexed_stages) fd = Some pm2" "transform sp pm2 fd = Some out2"
      "select [''CANCELLED'', ''features''] out2 = Some d2"
    and f3: "fit sp (Pipeline encoded_stages) fd = Some pm3" "transform sp pm3 fd = Some out3"
      "select [''CANCELLED'', ''features''] out3 = Some d3"
    and j: "jvm_randomSplit sp [0.7, 0.3] (rand 0) d1 = Some [tr1, te1]"
      "jvm_randomSplit sp [0.7, 0.3] (rand 1) d2 = Some [tr2, te2]"
      "jvm_randomSplit sp [0.7, 0.3] (rand 2) d3 = Some [tr3, te3]"
    and cs: "calls s =
       [Call_Pipeline encoded_stages,
        Call_fit (Pipeline encoded_stages) fd pm1,
        Call_transform pm1 fd out1,
        Call_randomSplit [0.7, 0.3] None (rand 0) d1 [tr1, te1],
        Call_fit lr_estimator tr1 mlr,
        Call_transform mlr te1 prd_lr,
        Call_evaluate auc_evaluator prd_lr a,
        Call_Pipeline indexed_stages,
        Call_fit (Pipeline indexed_stages) fd pm2,
        Call_transform pm2 fd out2,
        Call_randomSplit [0.7, 0.3] None (rand 1) d2 [tr2, te2],
        Call_fit rf_estimator tr2 mrf,
        Call_transform mrf te2 prd_rf,
        Call_evaluate auc_evaluator prd_rf b,
        Call_fit gbt_estimator tr2 mgbt,
        Call_transform mgbt te2 prd_gbt,
        Call_evaluate auc_evaluator prd_gbt c,
        Call_Pipeline encoded_stages,
        Call_fit (Pipeline encoded_stages) fd pm3,
        Call_transform pm3 fd out3,
        Call_randomSplit [0.7, 0.3] None (rand 2) d3 [tr3, te3],
        Call_fit (CrossValidator lr_estimator the_grid auc_evaluator 5 3) tr3 mcv,
        Call_transform mcv te3 prd_cv,
        Call_evaluate auc_evaluator prd_cv d]"
    and o: "Out s = [a, b, c, d]" "store s = st" "train s = Some tr3" "test s = Some te3"
    by (rule run_Some)
  from f1 f3 have e: "d3 = d1" by simp
  have "built_pipelines (calls s) = [encoded_stages, indexed_stages, encoded_stages]"
    by (simp add: cs)
  moreover have "builds_followed_by_split (calls s)"
    using f1 f2 f3 by (simp add: cs)
  moreover have "splits (calls s) =
       [([0.7, 0.3], None, rand 0, d1, [tr1, te1]),
        ([0.7, 0.3], None, rand 1, d2, [tr2, te2]),
        ([0.7, 0.3], None, rand 2, d1, [tr3, te3])]"
    by (simp add: cs e)
  moreover have "experiments (calls s) =
       [(lr_estimator, tr1, te1, auc_evaluator, a),
        (rf_estimator, tr2, te2, auc_evaluator, b),
        (gbt_estimator, tr2, te2, auc_evaluator, c),
        (CrossValidator lr_estimator the_grid auc_evaluator 5 3, tr3, te3, auc_evaluator, d)]"
    by (simp add: cs)
  moreover have "saves (calls s) = []"
    by (simp add: cs)
  moreover note o
  ultimately show ?thesis
    using l f1 f2 j[unfolded e] by (rule that[rotated 13])
qed

subsection \<open>The parameter grid\<close>

lemma the_grid_explicit:
  "the_grid = [[(''maxIter'', a), (''regParam'', b), (''elasticNetParam'', c)].
      a \<leftarrow> [Num 5, Num 10, Num 100],
      b \<leftarrow> [Dbl 0, Dbl (1 / 100), Dbl (1 / 10)],
      c \<leftarrow> [Dbl 0, Dbl (5 / 10), Dbl 1]]"
  by (simp add: the_grid_def addGrid_def ParamGridBuilder_def)

lemma the_grid_size: "length the_grid = 27" "distinct the_grid"
  by (simp_all add: the_grid_explicit)

subsection \<open>The commented-out save\<close>

text \<open>Had the statement been live, the store and the record of calls would show it.\<close>

lemma write_overwrite_save_effect:
  "store (write_overwrite_save m path s) path = Some m"
  "saves (calls (write_overwrite_save m path s)) = saves (calls s) @ [path]"
proof -
  have "saves (cs @ [Call_save path m]) = saves cs @ [path]" for cs :: "'a call list"
    by (induction cs rule: saves.induct) simp_all
  then show "store (write_overwrite_save m path s) path = Some m"
    "saves (calls (write_overwrite_save m path s)) = saves (calls s) @ [path]"
    by (simp_all add: write_overwrite_save_def logged_def)
qed

subsection \<open>Runs on the small instance\<close>

lemmas example_defs = example_spark_def example_table_def example_fn_def example_cast_def
  example_split_def example_quality_def stage_outputs_def example_transform_def
  example_evaluate_def example_rand_def example_rand'_def example_store_def

lemmas call_defs = fit_call_def transform_call_def evaluate_call_def randomSplit_call_def
  Pipeline_call_def logged_def

lemmas cell_defs = cell_import_data_def cell_feature_engineering_def cell_pipeline_def
  cell_train_test_def fit_transform_split_def cell_lr_def cell_lr_evaluate_def cell_save_def
  cell_rebuild_def cell_rf_def cell_rf_evaluate_def cell_gbt_def cell_gbt_evaluate_def
  cell_rebuild_again_def cell_cross_validate_def cell_cv_evaluate_def

lemmas df_defs = feature_engineering_def withColumn_def select_def padded_time_def
  when_otherwise_def eq_c_def length_c_def concat_c_def


lemma example_run:
  "map_option (\<lambda>s. (Out s, row_counts (concat (split_parts (calls s)))))
     (run example_spark example_rand example_store) =
   Some ([6 / 10, 5 / 10, 9 / 10, 7 / 10], [1, 2, 1, 2, 1, 2])"
  unfolding run_def cell_defs call_defs empty_namespace_def
  by (simp add: df_defs example_defs Let_def split_parts_def row_counts_def)

lemma example_run':
  "map_option (\<lambda>s. (Out s, row_counts (concat (split_parts (calls s)))))
     (run example_spark example_rand' example_store) =
   Some ([6 / 10, 5 / 10, 9 / 10, 7 / 10], [2, 1, 0, 3, 1, 2])"
  unfolding run_def cell_defs call_defs empty_namespace_def
  by (simp add: df_defs example_defs Let_def split_parts_def row_counts_def)

lemma example_run_completes:
  obtains s where "run example_spark example_rand example_store = Some s"
    "Out s = [6 / 10, 5 / 10, 9 / 10, 7 / 10]"
    "row_counts (concat (split_parts (calls s))) = [1, 2, 1, 2, 1, 2]"
  using example_run by (cases "run example_spark example_rand example_store") auto

lemma example_run'_completes:
  obtains s where "run example_spark example_rand' example_store = Some s"
    "Out s = [6 / 10, 5 / 10, 9 / 10, 7 / 10]"
    "row_counts (concat (split_parts (calls s))) = [2, 1, 0, 3, 1, 2]"
  using example_run' by (cases "run example_spark example_rand' example_store") auto

subsection \<open>Cells and the object store\<close>

lemma run_cells_unfold:
  "run_cells [] = Some" "run_cells (c # cs) = (\<lambda>s. c s \<bind> run_cells cs)"
  by (rule ext, simp)+

lemma run_is_all_cells: "run sp rand st = run_cells (cells sp rand) (empty_namespace st)"
  by (simp add: run_def cells_def run_cells_unfold)

lemma saves_append: "saves (xs @ ys) = saves xs @ saves ys"
  by (induction xs rule: saves.induct) simp_all

lemma fit_transform_split_saves:
  assumes "fit_transform_split sp rand s = Some s'"
  shows "store s' = store s \<and> saves (calls s') = saves (calls s)"
  using assms by (elim fit_transform_split_Some) (simp add: saves_append)

lemma cell_saves_nothing:
  assumes "c \<in> set (cells sp rand)" and "c s = Some s'"
  shows "store s' = store s \<and> saves (calls s') = saves (calls s)"
proof -
  consider "c = cell_import_data sp" | "c = cell_feature_engineering sp" | "c = cell_pipeline"
    | "c = cell_train_test sp rand" | "c = cell_lr sp" | "c = cell_lr_evaluate sp"
    | "c = cell_save" | "c = cell_rebuild sp rand" | "c = cell_rf sp" | "c = cell_rf_evaluate sp"
    | "c = cell_gbt sp" | "c = cell_gbt_evaluate sp" | "c = cell_rebuild_again sp rand"
    | "c = cell_cross_validate sp" | "c = cell_cv_evaluate sp"
    using assms(1) by (auto simp: cells_def)
  then show ?thesis
  proof cases
    case 1 with assms(2) show ?thesis by (auto elim!: cell_import_data_Some)
  next
    case 2 with assms(2) show ?thesis by (auto elim!: cell_feature_engineering_Some)
  next
    case 3 with assms(2) show ?thesis by (auto dest!: cell_pipeline_Some simp: saves_append)
  next
    case 4 with assms(2) show ?thesis
      by (simp add: cell_train_test_def fit_transform_split_saves)
  next
    case 5 with assms(2) show ?thesis by (auto elim!: cell_lr_Some simp: saves_append)
  next
    case 6 with assms(2) show ?thesis by (auto elim!: cell_lr_evaluate_Some simp: saves_append)
  next
    case 7 with assms(2) show ?thesis by (simp add: cell_save_def)
  next
    case 8
    with assms(2) have "cell_rebuild sp rand s = Some s'" by simp
    then obtain nc i1 i2 i3 s1 where
      "s1 = calls_update (\<lambda>cs. cs @ [Call_Pipeline [i1, i2, i3, VectorAssembler
             ([''OP_CARRIER_INDEXED'', ''ORIGIN_INDEXED'', ''DEST_INDEXED''] @ nc) ''features'']])
        (s\<lparr>input_cols := Some ([''OP_CARRIER_INDEXED'', ''ORIGIN_INDEXED'', ''DEST_INDEXED''] @ nc),
          assembler := Some (VectorAssembler
             ([''OP_CARRIER_INDEXED'', ''ORIGIN_INDEXED'', ''DEST_INDEXED''] @ nc) ''features''),
          pipeline := Some (Pipeline [i1, i2, i3, VectorAssembler
             ([''OP_CARRIER_INDEXED'', ''ORIGIN_INDEXED'', ''DEST_INDEXED''] @ nc) ''features''])\<rparr>)"
      and f: "fit_transform_split sp rand s1 = Some s'"
      by (rule cell_rebuild_Some)
    then have "store s1 = store s" "saves (calls s1) = saves (calls s)"
      by (simp_all add: saves_append)
    with fit_transform_split_saves[OF f] show ?thesis by simp
  next
    case 9 with assms(2) show ?thesis by (auto elim!: cell_rf_Some simp: saves_append)
  next
    case 10 with assms(2) show ?thesis by (auto elim!: cell_rf_evaluate_Some simp: saves_append)
  next
    case 11 with assms(2) show ?thesis by (auto elim!: cell_gbt_Some simp: saves_append)
  next
    case 12 with assms(2) show ?thesis by (auto elim!: cell_gbt_evaluate_Some simp: saves_append)
  next
    case 13
    with assms(2) have "cell_rebuild_again sp rand s = Some s'" by simp
    then obtain nc i1 i2 i3 enc s1 where
      "s1 = calls_update (\<lambda>cs. cs @ [Call_Pipeline [i1, i2, i3, enc, VectorAssembler
             ([''OP_CARRIER_ENCODED'', ''ORIGIN_ENCODED'', ''DEST_ENCODED''] @ nc) ''features'']])
        (s\<lparr>input_cols := Some ([''OP_CARRIER_ENCODED'', ''ORIGIN_ENCODED'', ''DEST_ENCODED''] @ nc),
          assembler := Some (VectorAssembler
             ([''OP_CARRIER_ENCODED'', ''ORIGIN_ENCODED'', ''DEST_ENCODED''] @ nc) ''features''),
          pipeline := Some (Pipeline [i1, i2, i3, enc, VectorAssembler
             ([''OP_CARRIER_ENCODED'', ''ORIGIN_ENCODED'', ''DEST_ENCODED''] @ nc) ''features''])\<rparr>)"
      and f: "fit_transform_split sp rand s1 = Some s'"
      by (rule cell_rebuild_again_Some)
    then have "store s1 = store s" "saves (calls s1) = saves (calls s)"
      by (simp_all add: saves_append)
    with fit_transform_split_saves[OF f] show ?thesis by simp
  next
    case 14 with assms(2) show ?thesis by (auto elim!: cell_cross_validate_Some simp: saves_append)
  next
    case 15 with assms(2) show ?thesis by (auto elim!: cell_cv_evaluate_Some simp: saves_append)
  qed
qed

lemma run_cells_saves_nothing:
  assumes "set cs \<subseteq> set (cells sp rand)" and "run_cells cs s = Some s'"
  shows "store s' = store s \<and> saves (calls s') = saves (calls s)"
  using assms
proof (induction cs arbitrary: s)
  case Nil
  then show ?case by simp
next
  case (Cons c cs)
  from Cons.prems(2) obtain s1 where 1: "c s = Some s1" and 2: "run_cells cs s1 = Some s'"
    by (auto simp: bind_eq_Some_conv)
  from Cons.prems(1) have "c \<in> set (cells sp rand)" and sub: "set cs \<subseteq> set (cells sp rand)"
    by simp_all
  from cell_saves_nothing[OF this(1) 1]
  have "store s1 = store s \<and> saves (calls s1) = saves (calls s)" .
  moreover from Cons.IH[OF sub 2]
  have "store s' = store s1 \<and> saves (calls s') = saves (calls s1)" .
  ultimately show ?case by simp
qed

section \<open>The claims\<close>

subsection \<open>C1: which estimator the grid search is run on\<close>

text \<open>
  Claim C1 says that the estimator handed to the cross-validator is the classifier whose
  test-set area under ROC was highest among the three fitted earlier. The notebook makes no
  comparison: the cell passes \<^verbatim>\<open>estimator=lr\<close>. On the small instance the
  gradient-boosted trees score 0.9 and the logistic regression 0.6, and the grid search is
  still run on the logistic regression, so the claim as stated is false there.
\<close>

theorem grid_search_on_best_counterexample:
  "map_option grid_search_on_best (run example_spark example_rand example_store) = Some False"
proof -
  obtain s where r: "run example_spark example_rand example_store = Some s"
    and o: "Out s = [6 / 10, 5 / 10, 9 / 10, 7 / 10]"
    by (rule example_run_completes)
  from r obtain "cv s = Some (CrossValidator lr_estimator the_grid auc_evaluator 5 3)"
    "lr s = Some lr_estimator" "rfclassifier s = Some rf_estimator" "gbt s = Some gbt_estimator"
    by (rule run_Some)
  with o have "\<not> grid_search_on_best s"
    by (simp add: grid_search_on_best_def)
  with r show ?thesis by simp
qed

text \<open>
  Claim C1, amended: in every completed run the estimator handed to the cross-validator is
  the logistic-regression estimator \<open>lr\<close> (features column \<open>features\<close>, label column
  \<open>CANCELLED\<close>, \<open>maxIter\<close> 10), whatever the three evaluations returned; it is the
  best-performing classifier exactly in the runs where the score of the logistic
  regression is not below the two others.
\<close>

theorem grid_search_on_logistic_regression:
  assumes "run sp rand st = Some s"
  shows "cv s = Some (CrossValidator lr_estimator the_grid auc_evaluator 5 3)
       \<and> lr s = Some lr_estimator
       \<and> (\<exists>a b c d. Out s = [a, b, c, d] \<and> (grid_search_on_best s \<longleftrightarrow> b \<le> a \<and> c \<le> a))"
proof -
  from assms obtain a b c d where
    "cv s = Some (CrossValidator lr_estimator the_grid auc_evaluator 5 3)"
    "lr s = Some lr_estimator" "rfclassifier s = Some rf_estimator" "gbt s = Some gbt_estimator"
    "Out s = [a, b, c, d]"
    by (rule run_Some)
  then show ?thesis by (simp add: grid_search_on_best_def)
qed

theorem grid_search_on_logistic_regression_witness:
  "\<exists>s. run example_spark example_rand example_store = Some s
     \<and> cv s = Some (CrossValidator lr_estimator the_grid auc_evaluator 5 3)
     \<and> Out s = [6 / 10, 5 / 10, 9 / 10, 7 / 10] \<and> \<not> grid_search_on_best s"
proof -
  obtain s where r: "run example_spark example_rand example_store = Some s"
    and o: "Out s = [6 / 10, 5 / 10, 9 / 10, 7 / 10]"
    by (rule example_run_completes)
  from grid_search_on_logistic_regression[OF r] o r show ?thesis by auto
qed

subsection \<open>C2: how many columns the feature engineering adds\<close>

text \<open>
  Both \<^verbatim>\<open>withColumn\<close> calls of the cell write the column \<open>CRS_DEP_HOUR\<close>, so a frame
  gains that one name, and none when it has the name already.
\<close>

lemma feature_engineering_new_columns:
  assumes "feature_engineering sp df = Some df'"
  shows "new_columns df df' = (if ''CRS_DEP_HOUR'' \<in> set (columns df) then [] else [''CRS_DEP_HOUR''])"
  using assms
  by (auto simp: feature_engineering_def withColumn_def new_columns_def bind_eq_Some_conv
      split: if_splits)

text \<open>
  Claim C2 says that the feature-engineering step adds exactly two columns that the loaded
  data did not have, and the notebook's own text speaks of "these two new columns". On the
  table of three flights the step adds one column, \<open>CRS_DEP_HOUR\<close>.
\<close>

theorem feature_engineering_adds_one_column:
  "map_option (new_columns example_table) (feature_engineering example_spark example_table)
   = Some [''CRS_DEP_HOUR'']"
  by (simp add: df_defs example_defs new_columns_def)

subsection \<open>C3: the value of the engineered column\<close>




subsection \<open>C4: the order of the stages\<close>

text \<open>
  Claim C4: in every pipeline the run builds (there are three), the string indexers for
  OP_CARRIER, ORIGIN and DEST come first, the one-hot encoder, when present, comes after
  all indexers, and the vector assembler producing \<open>features\<close> comes last.
\<close>

theorem pipeline_stages_in_fixed_order:
  assumes "run sp rand st = Some s"
  shows "length (built_pipelines (calls s)) = 3 \<and> list_all stages_in_order (built_pipelines (calls s))"
proof -
  from assms obtain "built_pipelines (calls s) = [encoded_stages, indexed_stages, encoded_stages]"
    by (rule run_summary)
  then show ?thesis by (simp add: stages_in_order_def is_indexer_of_def)
qed

theorem pipeline_stages_in_fixed_order_witness:
  "\<exists>s. run example_spark example_rand example_store = Some s
     \<and> length (built_pipelines (calls s)) = 3 \<and> list_all stages_in_order (built_pipelines (calls s))"
proof -
  obtain s where r: "run example_spark example_rand example_store = Some s"
    by (rule example_run_completes)
  from pipeline_stages_in_fixed_order[OF r] r show ?thesis by blast
qed

subsection \<open>C5: the grid and the folds\<close>

text \<open>
  Claim C5: the sweep enumerates exactly 3 x 3 x 3 = 27 parameter combinations, three
  candidate values for each of \<open>maxIter\<close>, \<open>regParam\<close> and \<open>elasticNetParam\<close>, and the
  cross-validator that is fitted is given these 27 maps and five folds. (The loop over
  folds and maps is the library's.)
\<close>

theorem grid_of_27_with_5_folds:
  assumes "run sp rand st = Some s"
  shows "paramGrid s = Some the_grid
       \<and> the_grid = [[(''maxIter'', a), (''regParam'', b), (''elasticNetParam'', c)].
            a \<leftarrow> [Num 5, Num 10, Num 100],
            b \<leftarrow> [Dbl 0, Dbl (1 / 100), Dbl (1 / 10)],
            c \<leftarrow> [Dbl 0, Dbl (5 / 10), Dbl 1]]
       \<and> length the_grid = 27 \<and> distinct the_grid
       \<and> map_option estimatorParamMaps (cv s) = Some the_grid
       \<and> map_option numFolds (cv s) = Some 5
       \<and> map (\<lambda>(e, tr, te, ev, x). e) (experiments (calls s)) ! 3
           = CrossValidator lr_estimator the_grid auc_evaluator 5 3"
proof -
  from assms obtain
    "paramGrid s = Some the_grid"
    "cv s = Some (CrossValidator lr_estimator the_grid auc_evaluator 5 3)"
    by (rule run_Some)
  moreover from assms obtain tr1 te1 tr2 te2 tr3 te3 a b c d where
    "experiments (calls s) =
       [(lr_estimator, tr1, te1, auc_evaluator, a),
        (rf_estimator, tr2, te2, auc_evaluator, b),
        (gbt_estimator, tr2, te2, auc_evaluator, c),
        (CrossValidator lr_estimator the_grid auc_evaluator 5 3, tr3, te3, auc_evaluator, d)]"
    by (rule run_summary)
  ultimately show ?thesis
    using the_grid_explicit the_grid_size by simp
qed

theorem grid_of_27_with_5_folds_witness:
  "\<exists>s. run example_spark example_rand example_store = Some s
     \<and> paramGrid s = Some the_grid \<and> length the_grid = 27 \<and> distinct the_grid
     \<and> map_option numFolds (cv s) = Some 5"
proof -
  obtain s where r: "run example_spark example_rand example_store = Some s"
    by (rule example_run_completes)
  from grid_of_27_with_5_folds[OF r] r show ?thesis by blast
qed

subsection \<open>C6: the two rebuilds\<close>

text \<open>
  Claim C6: after the initial encoded pipeline the pipeline is rebuilt exactly twice. The
  first rebuild has no one-hot encoder and its assembler consumes the outputs of the three
  indexers (the \<open>_INDEXED\<close> columns); the second has the encoder again and its assembler
  consumes the encoder's outputs (the \<open>_ENCODED\<close> columns): it is the initial pipeline,
  and the frame split after it is the frame split after the initial one.
\<close>

theorem pipeline_rebuilt_twice:
  assumes "run sp rand st = Some s"
  shows "built_pipelines (calls s) =
           [indexers @ [encoder, VectorAssembler (outputCols encoder @ numeric) ''features''],
            indexers @ [VectorAssembler (map outputCol indexers @ numeric) ''features''],
            indexers @ [encoder, VectorAssembler (outputCols encoder @ numeric) ''features'']]
       \<and> (\<exists>d1 d2. split_frames (calls s) = [d1, d2, d1])"
proof -
  from assms obtain d1 d2 tr1 te1 tr2 te2 tr3 te3 where
    "built_pipelines (calls s) = [encoded_stages, indexed_stages, encoded_stages]"
    "splits (calls s) =
       [([0.7, 0.3], None, rand 0, d1, [tr1, te1]),
        ([0.7, 0.3], None, rand 1, d2, [tr2, te2]),
        ([0.7, 0.3], None, rand 2, d1, [tr3, te3])]"
    by (rule run_summary)
  then show ?thesis by (simp add: split_frames_def)
qed

theorem pipeline_rebuilt_twice_witness:
  "\<exists>s. run example_spark example_rand example_store = Some s
     \<and> built_pipelines (calls s) = [encoded_stages, indexed_stages, encoded_stages]
     \<and> (\<exists>d1 d2. split_frames (calls s) = [d1, d2, d1])"
proof -
  obtain s where r: "run example_spark example_rand example_store = Some s"
    by (rule example_run_completes)
  from pipeline_rebuilt_twice[OF r] r show ?thesis by simp
qed

subsection \<open>C7: the weights of the splits\<close>

text \<open>
  Claim C7: every \<^verbatim>\<open>randomSplit\<close> of a run has the weights 0.7 and 0.3 and returns
  two parts, bound to \<open>train\<close> and \<open>test\<close> in that order (the run ends with the parts
  of the last split bound), and each of the three pipeline builds is followed at once by
  the fit of that pipeline, the transform and such a split of the transformed frame.
\<close>

theorem every_split_is_70_30:
  assumes "run sp rand st = Some s"
  shows "split_weights (calls s) = [[0.7, 0.3], [0.7, 0.3], [0.7, 0.3]]
       \<and> length (built_pipelines (calls s)) = 3
       \<and> builds_followed_by_split (calls s)
       \<and> (\<exists>tr1 te1 tr2 te2 tr3 te3.
            split_parts (calls s) = [[tr1, te1], [tr2, te2], [tr3, te3]]
          \<and> train s = Some tr3 \<and> test s = Some te3)"
proof -
  from assms obtain d1 d2 tr1 te1 tr2 te2 tr3 te3 where
    "built_pipelines (calls s) = [encoded_stages, indexed_stages, encoded_stages]"
    "builds_followed_by_split (calls s)"
    "splits (calls s) =
       [([0.7, 0.3], None, rand 0, d1, [tr1, te1]),
        ([0.7, 0.3], None, rand 1, d2, [tr2, te2]),
        ([0.7, 0.3], None, rand 2, d1, [tr3, te3])]"
    "train s = Some tr3" "test s = Some te3"
    by (rule run_summary)
  then show ?thesis by (simp add: split_weights_def split_parts_def)
qed

theorem every_split_is_70_30_witness:
  "\<exists>s. run example_spark example_rand example_store = Some s
     \<and> split_weights (calls s) = [[0.7, 0.3], [0.7, 0.3], [0.7, 0.3]]
     \<and> builds_followed_by_split (calls s)
     \<and> row_counts (concat (split_parts (calls s))) = [1, 2, 1, 2, 1, 2]"
proof -
  obtain s where r: "run example_spark example_rand example_store = Some s"
    and n: "row_counts (concat (split_parts (calls s))) = [1, 2, 1, 2, 1, 2]"
    by (rule example_run_completes)
  from every_split_is_70_30[OF r] r n show ?thesis by blast
qed

subsection \<open>C8: what the classifiers are fitted and scored on\<close>

text \<open>
  Claim C8: each of the three classifiers (logistic regression, random forest,
  gradient-boosted trees) is fitted on the first part of the latest split (\<open>train\<close>), the
  fitted model predicts the second part of that split (\<open>test\<close>), and the predictions are
  scored by the evaluator with label column \<open>CANCELLED\<close> and metric \<open>areaUnderROC\<close>. The
  same holds of the cross-validated model, and the four scores are what the run displays.
\<close>

theorem classifiers_fitted_on_train_scored_on_test:
  assumes "run sp rand st = Some s"
  shows "\<exists>tr1 te1 tr2 te2 tr3 te3 a b c d.
           split_parts (calls s) = [[tr1, te1], [tr2, te2], [tr3, te3]]
         \<and> experiments (calls s) =
             [(lr_estimator, tr1, te1, \<lparr>labelCol = ''CANCELLED'', metricName = ''areaUnderROC''\<rparr>, a),
              (rf_estimator, tr2, te2, \<lparr>labelCol = ''CANCELLED'', metricName = ''areaUnderROC''\<rparr>, b),
              (gbt_estimator, tr2, te2, \<lparr>labelCol = ''CANCELLED'', metricName = ''areaUnderROC''\<rparr>, c),
              (CrossValidator lr_estimator the_grid auc_evaluator 5 3, tr3, te3,
               \<lparr>labelCol = ''CANCELLED'', metricName = ''areaUnderROC''\<rparr>, d)]
         \<and> Out s = [a, b, c, d]"
proof -
  from assms obtain d1 d2 tr1 te1 tr2 te2 tr3 te3 a b c d where
    "splits (calls s) =
       [([0.7, 0.3], None, rand 0, d1, [tr1, te1]),
        ([0.7, 0.3], None, rand 1, d2, [tr2, te2]),
        ([0.7, 0.3], None, rand 2, d1, [tr3, te3])]"
    "experiments (calls s) =
       [(lr_estimator, tr1, te1, auc_evaluator, a),
        (rf_estimator, tr2, te2, auc_evaluator, b),
        (gbt_estimator, tr2, te2, auc_evaluator, c),
        (CrossValidator lr_estimator the_grid auc_evaluator 5 3, tr3, te3, auc_evaluator, d)]"
    "Out s = [a, b, c, d]"
    by (rule run_summary)
  then show ?thesis by (simp add: split_parts_def)
qed

theorem classifiers_fitted_on_train_scored_on_test_witness:
  "\<exists>s. run example_spark example_rand example_store = Some s
     \<and> map (\<lambda>(e, tr, te, ev, x). (e, length (rows tr), length (rows te), x)) (experiments (calls s)) =
         [(lr_estimator, 1, 2, 6 / 10), (rf_estimator, 1, 2, 5 / 10), (gbt_estimator, 1, 2, 9 / 10),
          (CrossValidator lr_estimator the_grid auc_evaluator 5 3, 1, 2, 7 / 10)]"
proof -
  obtain s where r: "run example_spark example_rand example_store = Some s"
    and o: "Out s = [6 / 10, 5 / 10, 9 / 10, 7 / 10]"
    and n: "row_counts (concat (split_parts (calls s))) = [1, 2, 1, 2, 1, 2]"
    by (rule example_run_completes)
  from classifiers_fitted_on_train_scored_on_test[OF r] obtain tr1 te1 tr2 te2 tr3 te3 a b c d where
    p: "split_parts (calls s) = [[tr1, te1], [tr2, te2], [tr3, te3]]" and
    e: "experiments (calls s) =
             [(lr_estimator, tr1, te1, auc_evaluator, a),
              (rf_estimator, tr2, te2, auc_evaluator, b),
              (gbt_estimator, tr2, te2, auc_evaluator, c),
              (CrossValidator lr_estimator the_grid auc_evaluator 5 3, tr3, te3, auc_evaluator, d)]" and
    o': "Out s = [a, b, c, d]"
    by blast
  from n p have "length (rows tr1) = 1" "length (rows te1) = 2" "length (rows tr2) = 1"
    "length (rows te2) = 2" "length (rows tr3) = 1" "length (rows te3) = 2"
    by (simp_all add: row_counts_def)
  moreover from o o' have "a = 6 / 10" "b = 5 / 10" "c = 9 / 10" "d = 7 / 10"
    by simp_all
  ultimately have
    "map (\<lambda>(e, tr, te, ev, x). (e, length (rows tr), length (rows te), x)) (experiments (calls s)) =
         [(lr_estimator, 1, 2, 6 / 10), (rf_estimator, 1, 2, 5 / 10), (gbt_estimator, 1, 2, 9 / 10),
          (CrossValidator lr_estimator the_grid auc_evaluator 5 3, 1, 2, 7 / 10)]"
    by (simp add: e)
  with r show ?thesis by (intro exI[of _ s]) simp
qed

subsection \<open>C9: the splits are not seeded\<close>

text \<open>
  Claim C9: every \<^verbatim>\<open>randomSplit\<close> call omits the seed, so the seed that reaches the
  library is whatever the random module returns. Two runs on the same input split the
  same three frames and differ only in these seeds, so their partitions may differ (the
  two runs of the small instance do). The cross-validated model is scored on the second
  part of the third split, drawn with the third seed from the frame of the first split,
  and the logistic-regression model on the second part of the first split.
\<close>

theorem splits_are_unseeded:
  assumes "run sp rand st = Some s" and "run sp rand' st = Some s'"
  shows "split_seeds (calls s) = [(None, rand 0), (None, rand 1), (None, rand 2)]
       \<and> split_seeds (calls s') = [(None, rand' 0), (None, rand' 1), (None, rand' 2)]
       \<and> split_frames (calls s') = split_frames (calls s)
       \<and> (\<exists>d1 d2 tr1 te1 tr2 te2 tr3 te3.
             split_frames (calls s) = [d1, d2, d1]
           \<and> split_parts (calls s) = [[tr1, te1], [tr2, te2], [tr3, te3]]
           \<and> jvm_randomSplit sp [0.7, 0.3] (rand 0) d1 = Some [tr1, te1]
           \<and> jvm_randomSplit sp [0.7, 0.3] (rand 2) d1 = Some [tr3, te3]
           \<and> map (\<lambda>(e, tr, te, ev, x). (e, te)) (experiments (calls s)) =
               [(lr_estimator, te1), (rf_estimator, te2), (gbt_estimator, te2),
                (CrossValidator lr_estimator the_grid auc_evaluator 5 3, te3)])"
proof -
  from assms(1) obtain fdo dr fd0 fd pm1 out1 d1 pm2 out2 d2 tr1 te1 tr2 te2 tr3 te3 a b c d where
    l: "sql sp ''select * from smaller_flight_table'' = Some fdo"
       "na_drop sp fdo = Some dr"
       "sample sp (1 / 600) 111 dr = Some fd0"
       "feature_engineering sp fd0 = Some fd"
       "fit sp (Pipeline encoded_stages) fd = Some pm1"
       "transform sp pm1 fd = Some out1"
       "select [''CANCELLED'', ''features''] out1 = Some d1"
       "fit sp (Pipeline indexed_stages) fd = Some pm2"
       "transform sp pm2 fd = Some out2"
       "select [''CANCELLED'', ''features''] out2 = Some d2"
    and j: "jvm_randomSplit sp [0.7, 0.3] (rand 0) d1 = Some [tr1, te1]"
       "jvm_randomSplit sp [0.7, 0.3] (rand 2) d1 = Some [tr3, te3]"
    and sp: "splits (calls s) =
       [([0.7, 0.3], None, rand 0, d1, [tr1, te1]),
        ([0.7, 0.3], None, rand 1, d2, [tr2, te2]),
        ([0.7, 0.3], None, rand 2, d1, [tr3, te3])]"
    and ex: "experiments (calls s) =
       [(lr_estimator, tr1, te1, auc_evaluator, a),
        (rf_estimator, tr2, te2, auc_evaluator, b),
        (gbt_estimator, tr2, te2, auc_evaluator, c),
        (CrossValidator lr_estimator the_grid auc_evaluator 5 3, tr3, te3, auc_evaluator, d)]"
    by (rule run_summary)
  from assms(2) obtain fdo' dr' fd0' fd' pm1' out1' d1' pm2' out2' d2'
      tr1' te1' tr2' te2' tr3' te3' where
    l': "sql sp ''select * from smaller_flight_table'' = Some fdo'"
       "na_drop sp fdo' = Some dr'"
       "sample sp (1 / 600) 111 dr' = Some fd0'"
       "feature_engineering sp fd0' = Some fd'"
       "fit sp (Pipeline encoded_stages) fd' = Some pm1'"
       "transform sp pm1' fd' = Some out1'"
       "select [''CANCELLED'', ''features''] out1' = Some d1'"
       "fit sp (Pipeline indexed_stages) fd' = Some pm2'"
       "transform sp pm2' fd' = Some out2'"
       "select [''CANCELLED'', ''features''] out2' = Some d2'"
    and sp': "splits (calls s') =
       [([0.7, 0.3], None, rand' 0, d1', [tr1', te1']),
        ([0.7, 0.3], None, rand' 1, d2', [tr2', te2']),
        ([0.7, 0.3], None, rand' 2, d1', [tr3', te3'])]"
    by (rule run_summary)
  from l(1) l'(1) have "fdo' = fdo" by simp
  with l(2) l'(2) have "dr' = dr" by simp
  with l(3) l'(3) have "fd0' = fd0" by simp
  with l(4) l'(4) have fd: "fd' = fd" by simp
  with l(5) l'(5) have "pm1' = pm1" by simp
  with fd l(6) l'(6) have "out1' = out1" by simp
  with l(7) l'(7) have d1: "d1' = d1" by simp
  from fd l(8) l'(8) have "pm2' = pm2" by simp
  with fd l(9) l'(9) have "out2' = out2" by simp
  with l(10) l'(10) have d2: "d2' = d2" by simp
  from sp sp' d1 d2 ex j show ?thesis
    by (simp add: split_seeds_def split_frames_def split_parts_def)
qed

theorem splits_are_unseeded_witness:
  "\<exists>s s'. run example_spark example_rand example_store = Some s
     \<and> run example_spark example_rand' example_store = Some s'
     \<and> split_seeds (calls s) = [(None, 1), (None, 1), (None, 1)]
     \<and> split_seeds (calls s') = [(None, 2), (None, 3), (None, 4)]
     \<and> split_frames (calls s') = split_frames (calls s)
     \<and> row_counts (concat (split_parts (calls s))) = [1, 2, 1, 2, 1, 2]
     \<and> row_counts (concat (split_parts (calls s'))) = [2, 1, 0, 3, 1, 2]"
proof -
  obtain s where r: "run example_spark example_rand example_store = Some s"
    and n: "row_counts (concat (split_parts (calls s))) = [1, 2, 1, 2, 1, 2]"
    by (rule example_run_completes)
  obtain s' where r': "run example_spark example_rand' example_store = Some s'"
    and n': "row_counts (concat (split_parts (calls s'))) = [2, 1, 0, 3, 1, 2]"
    by (rule example_run'_completes)
  from splits_are_unseeded[OF r r'] have
    "split_seeds (calls s) = [(None, 1), (None, 1), (None, 1)]"
    "split_seeds (calls s') = [(None, 2), (None, 3), (None, 4)]"
    "split_frames (calls s') = split_frames (calls s)"
    by (simp_all add: example_rand_def example_rand'_def)
  with r r' n n' show ?thesis by blast
qed

subsection \<open>C10: nothing is saved\<close>

text \<open>
  Claim C10: the one save statement is a comment, so the run writes no model or pipeline:
  after any number of cells, and so after all fifteen, the object store is as the run
  found it and no save call has been made.
\<close>

theorem object_store_unchanged:
  assumes "run_cells (take n (cells sp rand)) (empty_namespace st) = Some s"
  shows "store s = st \<and> saves (calls s) = []"
proof -
  have "set (take n (cells sp rand)) \<subseteq> set (cells sp rand)"
    by (rule set_take_subset)
  from run_cells_saves_nothing[OF this assms] show ?thesis
    by (simp add: empty_namespace_def)
qed

theorem object_store_unchanged_witness:
  "\<exists>s. run_cells (take 15 (cells example_spark example_rand)) (empty_namespace example_store) = Some s
     \<and> store s = example_store \<and> saves (calls s) = []"
proof -
  obtain s where "run example_spark example_rand example_store = Some s"
    by (rule example_run_completes)
  then have r: "run_cells (take 15 (cells example_spark example_rand)) (empty_namespace example_store) = Some s"
    by (simp add: run_is_all_cells cells_def)
  from object_store_unchanged[OF r] r show ?thesis by blast
qed

end
